theory Spec2Isabelle
  imports Complex_Main "HOL-Library.Log_Nat"
begin

section \<open>Data model\<close>

text \<open>
  The persistent store is the Prisma database; the tables the pipeline touches are
  \<open>meeting\<close>, \<open>transcript\<close> and \<open>actionItem\<close>. A table is the list of its rows in insertion
  order. A meeting row is identified by its \<open>id\<close> column (here \<open>mid\<close>); a transcript row
  is identified by its position in the table (the primary key is only ever used to write
  back to a row that has just been read).

  Wall-clock instants (\<open>Date\<close>) are milliseconds as \<open>int\<close>. Offsets inside a meeting are
  JavaScript numbers, that is IEEE doubles: a double is the rational number it denotes, and
  the one operation of the pipeline that rounds, the subtraction of two offsets, rounds
  its result (\<open>fl\<close> below). The text of a fragment is a JavaScript string: the list of its
  UTF-16 code units. Identifiers, speaker labels and titles are only compared and
  concatenated, and stay \<open>string\<close>s.
\<close>

type_synonym jstring = "nat list"

text \<open>A string literal of the program, all ASCII, as code units.\<close>

definition js :: "string \<Rightarrow> jstring" where
  "js s = map of_char s"

datatype error = Error string

datatype status = Scheduled | Recording | Processing | Completed | Failed

record StructuredSummary =
  topics :: "string list"
  decisions :: "string list"
  actionItems :: "string list"

record SummaryEntry =
  entry_timestamp :: int
  entry_summary :: StructuredSummary

text \<open>
  The \<open>summaryHistory\<close> column is a nullable string holding JSON: it is null, or it parses
  to a list of entries, or it does not parse.
\<close>

datatype history = HistoryNull | HistoryJson "SummaryEntry list" | HistoryMalformed

record meeting =
  mid :: string
  zoomJoinUrl :: "string option"
  status :: status
  zoomMeetingId :: "string option"
  startedAt :: "int option"
  endedAt :: "int option"
  duration :: "int option"
  summary :: "StructuredSummary option"
  summaryHistory :: history

record Transcript =
  meetingId :: string
  t_text :: jstring
  speaker :: "string option"
  timestamp :: int
  confidence :: "rat option"

record ActionItem =
  ai_meetingId :: string
  title :: string
  ai_status :: string

text \<open>
  The in-memory session object of the audio server. Session objects are shared between
  the connection that created them and the registry \<open>activeSessions\<close>, so they live in
  a store of objects and are referred to by address.
\<close>

record MeetingSession =
  botId :: string
  s_meetingId :: string
  deepgramConnection :: nat
  summaryInterval :: "nat option"
  lastSpeaker :: "string option"
  lastTranscript :: "jstring option"
  lastTimestamp :: "rat option"

datatype sse_event =
  TranscriptEvent jstring string rat bool
  | SummaryEvent StructuredSummary int bool
  | StatusEvent status int

datatype provider_call = CreateBot string | StopBot string

text \<open>
  The whole process state: the three tables, the subscriber registry \<open>sseClients\<close> with
  the log of what every subscriber was sent, the session objects and the registry
  \<open>activeSessions\<close> (bot id to session object), the open speech-to-text connections, the
  running interval timers (handle and the meeting the timer's closure captured), the
  \<open>botIds\<close> map of the bot service, and the log of calls made to the meeting-bot provider.
\<close>

record world =
  db_meeting :: "meeting list"
  db_transcript :: "Transcript list"
  db_actionItem :: "ActionItem list"
  sseClients :: "string \<Rightarrow> nat list"
  delivered :: "(nat \<times> sse_event) list"
  sessions :: "nat \<rightharpoonup> MeetingSession"
  activeSessions :: "string \<rightharpoonup> nat"
  dgOpen :: "nat list"
  timers :: "(nat \<times> string) list"
  nextHandle :: nat
  botIds :: "string \<rightharpoonup> string"
  providerCalls :: "provider_call list"

section \<open>JavaScript values\<close>

text \<open>A string is truthy when it is not empty; \<open>a || b\<close> on optional strings.\<close>

definition truthy :: "'a list option \<Rightarrow> bool" where
  "truthy v = (case v of None \<Rightarrow> False | Some s \<Rightarrow> s \<noteq> [])"

definition js_or :: "string option \<Rightarrow> string option \<Rightarrow> string option" where
  "js_or a b = (if truthy a then a else b)"

section \<open>Database primitives\<close>

definition findFirst_by_bot :: "meeting list \<Rightarrow> string \<Rightarrow> meeting option" where
  "findFirst_by_bot ms b = find (\<lambda>m. zoomMeetingId m = Some b) ms"

definition findUnique :: "meeting list \<Rightarrow> string \<Rightarrow> meeting option" where
  "findUnique ms i = find (\<lambda>m. mid m = i) ms"

text \<open>\<open>prisma.meeting.update\<close> raises when no row has the id.\<close>

definition update_meeting ::
  "string \<Rightarrow> (meeting \<Rightarrow> meeting) \<Rightarrow> meeting list \<Rightarrow> error + meeting list" where
  "update_meeting i f ms =
     (if list_ex (\<lambda>m. mid m = i) ms
      then Inr (map (\<lambda>m. if mid m = i then f m else m) ms)
      else Inl (Error ''Record to update not found''))"

definition status_of :: "world \<Rightarrow> string \<Rightarrow> status option" where
  "status_of w i = map_option status (findUnique (db_meeting w) i)"

section \<open>Subscriber registry\<close>

text \<open>
  \<open>broadcastTranscript\<close> sends the event to every subscriber registered for the meeting;
  \<open>broadcastToMeeting\<close> is its exported name.
\<close>

definition broadcastTranscript :: "string \<Rightarrow> sse_event \<Rightarrow> world \<Rightarrow> world" where
  "broadcastTranscript m ev w =
     w\<lparr>delivered := delivered w @ map (\<lambda>c. (c, ev)) (sseClients w m)\<rparr>"

definition broadcastToMeeting :: "string \<Rightarrow> sse_event \<Rightarrow> world \<Rightarrow> world" where
  "broadcastToMeeting m ev w = broadcastTranscript m ev w"

section \<open>The events webhook\<close>

datatype webhook_event =
  meeting_started | bot_joined | meeting_completed | meeting_failed
  | bot_left | bot_error | recording_started | recording_stopped | other_event

text \<open>
  The \<open>timestamp\<close> of a body is any JSON value. The handler uses its truthiness and the
  instant \<open>new Date\<close> makes of it, which is \<open>None\<close> for an Invalid Date: a string that is
  no date, or (for the falsy values) \<open>undefined\<close> and the empty string; \<open>null\<close>, \<open>false\<close> and
  \<open>0\<close> are falsy and give the instant 0.
\<close>

datatype js_time = Falsy "int option" | Truthy "int option"

record webhook_body =
  wb_bot_id :: "string option"
  wb_data_bot_id :: "string option"
  wb_event :: webhook_event
  wb_timestamp :: js_time

text \<open>\<open>new Date(timestamp)\<close> and \<open>new Date(timestamp || new Date())\<close>.\<close>

definition date_of :: "js_time \<Rightarrow> int option" where
  "date_of v = (case v of Falsy d \<Rightarrow> d | Truthy d \<Rightarrow> d)"

definition date_or_now :: "int \<Rightarrow> js_time \<Rightarrow> int option" where
  "date_or_now now v = (case v of Falsy d \<Rightarrow> Some now | Truthy d \<Rightarrow> d)"

text \<open>
  A write of the meeting row. \<open>prisma.meeting.update\<close> raises when a date of the data is
  an Invalid Date (\<open>None\<close>), and when no row has the id; nothing is written then.
\<close>

definition write_meeting ::
  "string \<Rightarrow> int option \<Rightarrow> (int \<Rightarrow> meeting \<Rightarrow> meeting) \<Rightarrow> world \<Rightarrow> world \<times> (error + unit)" where
  "write_meeting i d f w =
     (case d of
        None \<Rightarrow> (w, Inl (Error ''Provided Date object is invalid''))
      | Some t \<Rightarrow>
          (case update_meeting i (f t) (db_meeting w) of
             Inl e \<Rightarrow> (w, Inl e)
           | Inr ms \<Rightarrow> (w\<lparr>db_meeting := ms\<rparr>, Inr ())))"

text \<open>
  The \<open>switch\<close> of the handler \<open>POST\<close> of the events route, for the meeting \<open>m\<close> found for
  the bot id \<open>bid\<close>. \<open>now\<close> is the clock reading. In the \<open>meeting.completed\<close> case the
  provider's stop call is wrapped in its own \<open>try\<close>/\<open>catch\<close>: whether it returns or raises,
  the handler goes on to the update, so only the call is logged.
\<close>

definition handle_event ::
  "int \<Rightarrow> webhook_body \<Rightarrow> string \<Rightarrow> meeting \<Rightarrow> world \<Rightarrow> world \<times> (error + unit)" where
  "handle_event now body bid m w =
     (case wb_event body of
        meeting_started \<Rightarrow>
          write_meeting (mid m)
            (case startedAt m of Some t \<Rightarrow> Some t | None \<Rightarrow> date_or_now now (wb_timestamp body))
            (\<lambda>t r. r\<lparr>status := Recording, startedAt := Some t\<rparr>) w
      | bot_joined \<Rightarrow>
          write_meeting (mid m)
            (case startedAt m of Some t \<Rightarrow> Some t | None \<Rightarrow> date_or_now now (wb_timestamp body))
            (\<lambda>t r. r\<lparr>status := Recording, startedAt := Some t\<rparr>) w
      | meeting_completed \<Rightarrow>
          write_meeting (mid m) (date_or_now now (wb_timestamp body))
            (\<lambda>t r. r\<lparr>status := Processing, endedAt := Some t\<rparr>)
            (w\<lparr>providerCalls := providerCalls w @ [StopBot bid]\<rparr>)
      | meeting_failed \<Rightarrow>
          write_meeting (mid m) (Some now) (\<lambda>t r. r\<lparr>status := Failed\<rparr>) w
      | bot_left \<Rightarrow>
          write_meeting (mid m) (date_of (wb_timestamp body))
            (\<lambda>t r. r\<lparr>status := Processing, endedAt := Some t\<rparr>) w
      | bot_error \<Rightarrow>
          write_meeting (mid m) (Some now) (\<lambda>t r. r\<lparr>status := Failed\<rparr>) w
      | recording_started \<Rightarrow> (w, Inr ())
      | recording_stopped \<Rightarrow> (w, Inr ())
      | other_event \<Rightarrow> (w, Inr ()))"

text \<open>
  The handler: a request whose body does not parse is \<open>None\<close>; the result is the new
  state and the HTTP status returned. Every error raised inside is answered with 500.
\<close>

definition POST_events :: "int \<Rightarrow> webhook_body option \<Rightarrow> world \<Rightarrow> world \<times> nat" where
  "POST_events now req w =
     (case req of
        None \<Rightarrow> (w, 500)
      | Some body \<Rightarrow>
          (let bot_id = js_or (wb_bot_id body) (wb_data_bot_id body) in
           if \<not> truthy bot_id then (w, 400)
           else
             (case findFirst_by_bot (db_meeting w) (the bot_id) of
                None \<Rightarrow> (w, 404)
              | Some m \<Rightarrow>
                  (case handle_event now body (the bot_id) m w of
                     (w', Inl e) \<Rightarrow> (w', 500)
                   | (w', Inr u) \<Rightarrow> (w', 200)))))"

text \<open>
  The order of the life cycle: scheduled, recording, processing, completed. The status
  \<open>failed\<close> is outside that order and is numbered last.
\<close>

fun rank :: "status \<Rightarrow> nat" where
  "rank Scheduled = 0"
| "rank Recording = 1"
| "rank Processing = 2"
| "rank Completed = 3"
| "rank Failed = 4"

section \<open>The audio server: speech events\<close>

text \<open>
  \<open>String.prototype.trim\<close> removes white space and line terminators from both ends. These
  are, in ECMAScript: tab, vertical tab, form feed, the byte order mark U+FEFF and the
  space separators of Unicode (U+0020, U+00A0, U+1680, U+2000 to U+200A, U+202F, U+205F,
  U+3000), and the line terminators U+000A, U+000D, U+2028 and U+2029. Each is one code
  unit.
\<close>

definition is_space :: "nat \<Rightarrow> bool" where
  "is_space c =
     (c \<in> set [0x0009, 0x000A, 0x000B, 0x000C, 0x000D, 0x0020, 0x00A0, 0x1680,
               0x2000, 0x2001, 0x2002, 0x2003, 0x2004, 0x2005, 0x2006, 0x2007, 0x2008,
               0x2009, 0x200A, 0x2028, 0x2029, 0x202F, 0x205F, 0x3000, 0xFEFF])"

definition trim :: "jstring \<Rightarrow> jstring" where
  "trim s = rev (dropWhile is_space (rev (dropWhile is_space s)))"

text \<open>Decimal rendering of a speaker index, for the template \<open>Speaker ${speakerId}\<close>.\<close>

fun show_nat :: "nat \<Rightarrow> string" where
  "show_nat n =
     (if n < 10 then [''0123456789'' ! n]
      else show_nat (n div 10) @ [''0123456789'' ! (n mod 10)])"

declare show_nat.simps [simp del]

text \<open>
  What the handler reads of a transcript event of the speech-to-text connection:
  \<open>channel.alternatives[0].transcript\<close>, the speaker and start offset of the first word,
  the two fall-back speaker fields, and \<open>is_final\<close>.
\<close>

record dg_event =
  dg_transcript :: "jstring option"
  dg_word_speaker :: "nat option"
  dg_word_start :: "rat option"
  dg_channel_speaker :: "nat option"
  dg_data_speaker :: "nat option"
  dg_is_final :: bool

record transcriptData =
  td_text :: jstring
  td_speaker :: string
  td_timestamp :: rat
  td_isFinal :: bool

definition nullish_or :: "'a option \<Rightarrow> 'a option \<Rightarrow> 'a option" where
  "nullish_or a b = (case a of Some x \<Rightarrow> Some x | None \<Rightarrow> b)"

definition speaker_label :: "dg_event \<Rightarrow> string" where
  "speaker_label ev =
     (case nullish_or (dg_word_speaker ev) (nullish_or (dg_channel_speaker ev) (dg_data_speaker ev)) of
        Some n \<Rightarrow> ''Speaker '' @ show_nat n
      | None \<Rightarrow> ''Unknown'')"

text \<open>
  \<open>words[0]?.start || Date.now() / 1000\<close>: a missing or zero start offset is falsy and
  gives the clock reading \<open>now\<close> (in seconds).
\<close>

definition event_timestamp :: "rat \<Rightarrow> dg_event \<Rightarrow> rat" where
  "event_timestamp now ev =
     (case dg_word_start ev of Some s \<Rightarrow> (if s \<noteq> 0 then s else now) | None \<Rightarrow> now)"

definition mk_transcriptData :: "rat \<Rightarrow> jstring \<Rightarrow> dg_event \<Rightarrow> transcriptData" where
  "mk_transcriptData now txt ev =
     \<lparr>td_text = txt, td_speaker = speaker_label ev,
      td_timestamp = event_timestamp now ev, td_isFinal = dg_is_final ev\<rparr>"

text \<open>
  \<open>prisma.transcript.findFirst\<close> with \<open>orderBy: { timestamp: 'desc' }\<close>: the row of the
  meeting and speaker with the greatest timestamp, with its position. Among rows of equal
  timestamp the query does not fix the choice; the model takes the one inserted first.
\<close>

definition findFirst_transcript ::
  "string \<Rightarrow> string \<Rightarrow> Transcript list \<Rightarrow> (nat \<times> Transcript) option" where
  "findFirst_transcript m sp ts =
     (case filter (\<lambda>(i, r). meetingId r = m \<and> speaker r = Some sp) (enumerate 0 ts) of
        [] \<Rightarrow> None
      | c # cs \<Rightarrow>
          Some (fold (\<lambda>(j, r) (i, b). if timestamp b < timestamp r then (j, r) else (i, b)) cs c))"

text \<open>
  The connection's variable \<open>currentSession\<close> holds the address of a session object or
  null; \<open>currentSession?.f\<close> reads a field when there is one.
\<close>

definition session_field :: "world \<Rightarrow> nat option \<Rightarrow> (MeetingSession \<Rightarrow> 'a option) \<Rightarrow> 'a option" where
  "session_field w cs f =
     (case cs of None \<Rightarrow> None
      | Some a \<Rightarrow> (case sessions w a of None \<Rightarrow> None | Some s \<Rightarrow> f s))"

definition update_session :: "nat option \<Rightarrow> (MeetingSession \<Rightarrow> MeetingSession) \<Rightarrow> world \<Rightarrow> world" where
  "update_session cs f w =
     (case cs of None \<Rightarrow> w
      | Some a \<Rightarrow> (case sessions w a of None \<Rightarrow> w
                  | Some s \<Rightarrow> w\<lparr>sessions := (sessions w)(a \<mapsto> f s)\<rparr>))"

text \<open>
  The difference of two doubles is the double nearest to the exact difference, ties going
  to the even significand: \<open>fl\<close> rounds a rational to 53 significant bits. \<open>binade x\<close> is
  the exponent \<open>e\<close> with \<open>2 ^ 52 \<le> \<bar>x\<bar> / 2 ^ e < 2 ^ 53\<close>. The range of the exponent is not
  bounded here: a difference of doubles that is subnormal is exact, and one that overflows
  compares with 5 as the infinity of its sign does.
\<close>

definition pow2 :: "int \<Rightarrow> rat" where
  "pow2 e = (if 0 \<le> e then 2 ^ nat e else 1 / 2 ^ nat (- e))"

definition round_half_even :: "rat \<Rightarrow> int" where
  "round_half_even q =
     (let f = \<lfloor>q\<rfloor>; d = q - of_int f in
      if d < 1 / 2 then f else if 1 / 2 < d then f + 1 else if even f then f else f + 1)"

definition binade :: "rat \<Rightarrow> int" where
  "binade x =
     (let (p, q) = quotient_of \<bar>x\<bar>; e = bitlen p - bitlen q - 53 in
      if \<bar>x\<bar> / pow2 e < 2 ^ 53 then e else e + 1)"

definition fl :: "rat \<Rightarrow> rat" where
  "fl x = (if x = 0 then 0
           else sgn x * of_int (round_half_even (\<bar>x\<bar> / pow2 (binade x))) * pow2 (binade x))"

text \<open>
  The body of the \<open>try\<close> block that stores a final, non-blank event: merge into the most
  recent fragment of the speaker, or create a fragment; then move the merge cursor.
  \<open>timeSinceLastSegment\<close> is \<open>Infinity\<close> when \<open>lastTimestamp\<close> is missing or zero, and the
  rounded difference of the two doubles otherwise.
\<close>

definition withinMergeWindow :: "rat option \<Rightarrow> rat \<Rightarrow> bool" where
  "withinMergeWindow lastT ts =
     (case lastT of None \<Rightarrow> False | Some l \<Rightarrow> (if l \<noteq> 0 then fl (ts - l) < 5 else False))"

definition store_final :: "string \<Rightarrow> nat option \<Rightarrow> transcriptData \<Rightarrow> world \<Rightarrow> world" where
  "store_final m cs td w =
     (let sameSpeaker = (session_field w cs lastSpeaker = Some (td_speaker td));
          inWindow = withinMergeWindow (session_field w cs lastTimestamp) (td_timestamp td);
          w1 =
            (if sameSpeaker \<and> inWindow \<and> truthy (session_field w cs lastTranscript)
             then
               (case findFirst_transcript m (td_speaker td) (db_transcript w) of
                  None \<Rightarrow> w
                | Some (i, r) \<Rightarrow>
                    w\<lparr>db_transcript :=
                        (db_transcript w)[i := r\<lparr>t_text := t_text r @ [0x20] @ trim (td_text td)\<rparr>]\<rparr>)
             else
               w\<lparr>db_transcript := db_transcript w @
                   [\<lparr>meetingId = m, t_text = trim (td_text td), speaker = Some (td_speaker td),
                     timestamp = \<lfloor>td_timestamp td\<rfloor>, confidence = Some 1\<rparr>]\<rparr>)
      in update_session cs
           (\<lambda>s. s\<lparr>lastSpeaker := Some (td_speaker td),
                  lastTranscript := Some (td_text td),
                  lastTimestamp := Some (td_timestamp td)\<rparr>) w1)"

text \<open>
  The handler of a transcript event. \<open>m\<close> is the id of the meeting the handler's closure
  captured, \<open>cs\<close> the connection's \<open>currentSession\<close>, \<open>now\<close> the clock in seconds.
\<close>

definition onTranscript :: "string \<Rightarrow> nat option \<Rightarrow> rat \<Rightarrow> dg_event \<Rightarrow> world \<Rightarrow> world" where
  "onTranscript m cs now ev w =
     (case dg_transcript ev of
        None \<Rightarrow> w
      | Some txt \<Rightarrow>
          if txt = [] then w
          else
            (let td = mk_transcriptData now txt ev;
                 w1 = (if td_isFinal td \<and> trim (td_text td) \<noteq> [] then store_final m cs td w else w)
             in broadcastTranscript m
                  (TranscriptEvent (td_text td) (td_speaker td) (td_timestamp td) (td_isFinal td)) w1))"

text \<open>A sequence of events, each with the clock reading at its arrival.\<close>

fun onTranscripts :: "string \<Rightarrow> nat option \<Rightarrow> (rat \<times> dg_event) list \<Rightarrow> world \<Rightarrow> world" where
  "onTranscripts m cs [] w = w"
| "onTranscripts m cs ((now, ev) # evs) w = onTranscripts m cs evs (onTranscript m cs now ev w)"

section \<open>The summarization function\<close>

text \<open>
  \<open>generateLiveSummary\<close> formats the transcript as a conversation and asks the language
  model, which is outside the program: \<open>llm\<close> maps the conversation to the parsed answer
  (each of the three fields may be missing), or raises. Missing fields become empty lists.
  A null speaker is rendered by the template as \<open>null\<close>; a speaker label enters the
  conversation by its characters.
\<close>

record summary_input =
  si_speaker :: "string option"
  si_text :: jstring
  si_timestamp :: int

type_synonym raw_summary = "string list option \<times> string list option \<times> string list option"

type_synonym llm = "jstring \<Rightarrow> error + raw_summary"

fun join_lines :: "jstring list \<Rightarrow> jstring" where
  "join_lines [] = []"
| "join_lines [l] = l"
| "join_lines (l # ls) = l @ [0x0A] @ join_lines ls"

definition or_empty :: "string list option \<Rightarrow> string list" where
  "or_empty v = (case v of None \<Rightarrow> [] | Some l \<Rightarrow> l)"

definition generateLiveSummary :: "llm \<Rightarrow> summary_input list \<Rightarrow> error + StructuredSummary" where
  "generateLiveSummary ask transcripts =
     (if transcripts = [] then Inr \<lparr>topics = [], decisions = [], actionItems = []\<rparr>
      else
        (case ask (join_lines (map (\<lambda>t. js (case si_speaker t of None \<Rightarrow> ''null'' | Some s \<Rightarrow> s)
                                          @ js '': '' @ si_text t) transcripts)) of
           Inl e \<Rightarrow> Inl e
         | Inr (t, d, a) \<Rightarrow>
             Inr \<lparr>topics = or_empty t, decisions = or_empty d, actionItems = or_empty a\<rparr>))"

text \<open>
  What the two callers hand to the function for a fragment: the interval job passes the
  selected columns as they are, \<open>processMeeting\<close> passes \<open>t.speaker || 'Unknown'\<close>.
\<close>

definition periodic_input :: "Transcript \<Rightarrow> summary_input" where
  "periodic_input r = \<lparr>si_speaker = speaker r, si_text = t_text r, si_timestamp = timestamp r\<rparr>"

definition final_input :: "Transcript \<Rightarrow> summary_input" where
  "final_input r =
     \<lparr>si_speaker = Some (if truthy (speaker r) then the (speaker r) else ''Unknown''),
      si_text = t_text r, si_timestamp = timestamp r\<rparr>"

section \<open>The audio server: the periodic summary job\<close>

text \<open>\<open>findMany\<close> of the meeting's fragments ordered by ascending timestamp.\<close>

definition findMany_transcripts :: "string \<Rightarrow> Transcript list \<Rightarrow> Transcript list" where
  "findMany_transcripts m ts = sort_key timestamp (filter (\<lambda>r. meetingId r = m) ts)"

text \<open>
  The loop over the action items of a summary: an item is created, in status
  \<open>pending\<close>, unless a row of the meeting with that exact title is found.
\<close>

definition existingItem :: "string \<Rightarrow> string \<Rightarrow> ActionItem list \<Rightarrow> ActionItem option" where
  "existingItem m t items = find (\<lambda>r. ai_meetingId r = m \<and> title r = t) items"

fun saveActionItems :: "string \<Rightarrow> string list \<Rightarrow> ActionItem list \<Rightarrow> ActionItem list" where
  "saveActionItems m [] items = items"
| "saveActionItems m (t # ts) items =
     saveActionItems m ts
       (case existingItem m t items of
          None \<Rightarrow> items @ [\<lparr>ai_meetingId = m, title = t, ai_status = ''pending''\<rparr>]
        | Some r \<Rightarrow> items)"

definition parse_history :: "history \<Rightarrow> SummaryEntry list" where
  "parse_history h = (case h of HistoryJson l \<Rightarrow> l | HistoryNull \<Rightarrow> [] | HistoryMalformed \<Rightarrow> [])"

text \<open>
  One run of the interval callback for meeting \<open>m\<close>. Everything is inside one
  \<open>try\<close>/\<open>catch\<close> that logs: when the summarization function or the last update raises,
  the run ends with what it has written so far. The \<open>summary\<close> event of this job carries no
  \<open>isFinal\<close> field, which reads as false.
\<close>

definition summaryJob :: "llm \<Rightarrow> int \<Rightarrow> string \<Rightarrow> world \<Rightarrow> world" where
  "summaryJob ask now m w =
     (let transcripts = findMany_transcripts m (db_transcript w) in
      if transcripts = [] then w
      else
        (case generateLiveSummary ask
                (map periodic_input transcripts) of
           Inl e \<Rightarrow> w
         | Inr s \<Rightarrow>
             (let w1 = w\<lparr>db_actionItem := saveActionItems m (actionItems s) (db_actionItem w)\<rparr>;
                  w2 = broadcastTranscript m (SummaryEvent s now False) w1;
                  summaryHistory0 =
                    (case findUnique (db_meeting w2) m of None \<Rightarrow> []
                     | Some cm \<Rightarrow> parse_history (summaryHistory cm));
                  hist = summaryHistory0 @ [\<lparr>entry_timestamp = now, entry_summary = s\<rparr>]
              in case update_meeting m
                        (\<lambda>r. r\<lparr>summary := Some s, summaryHistory := HistoryJson hist\<rparr>)
                        (db_meeting w2) of
                   Inl e \<Rightarrow> w2
                 | Inr ms \<Rightarrow> w2\<lparr>db_meeting := ms\<rparr>)))"

section \<open>The audio server: the duplex channel\<close>

text \<open>
  A message of the channel after the server's classification: a JSON object (of which the
  handler reads \<open>bot_id\<close>) or a binary audio frame. The connection keeps its variable
  \<open>currentSession\<close>; the effects of the handler that concern a claim are logged in order.
\<close>

datatype ws_message = JsonMessage "string option" | BinaryMessage "nat list"

datatype effect =
  SendReady | FindMeeting string | CloseSocket
  | OpenDeepgram nat | RegisterSession string nat | StartInterval nat

record connection =
  currentSession :: "nat option"
  effects :: "effect list"

definition new_session :: "string \<Rightarrow> string \<Rightarrow> nat \<Rightarrow> MeetingSession" where
  "new_session b m dg =
     \<lparr>botId = b, s_meetingId = m, deepgramConnection = dg, summaryInterval = None,
      lastSpeaker = None, lastTranscript = None, lastTimestamp = None\<rparr>"

text \<open>
  The metadata branch. \<open>apiKey\<close> tells whether \<open>DEEPGRAM_API_KEY\<close> is configured. Handles
  of speech-to-text connections, session objects and timers come from one counter.
\<close>

definition onMetadata :: "bool \<Rightarrow> string option \<Rightarrow> world \<times> connection \<Rightarrow> world \<times> connection" where
  "onMetadata apiKey bot_id wc =
     (let w = fst wc;
          c = (snd wc)\<lparr>effects := effects (snd wc) @ [SendReady]\<rparr>
      in if \<not> truthy bot_id then (w, c)
         else
           (let b = the bot_id;
                c1 = c\<lparr>effects := effects c @ [FindMeeting b]\<rparr>
            in case findFirst_by_bot (db_meeting w) b of
                 None \<Rightarrow> (w, c1\<lparr>effects := effects c1 @ [CloseSocket]\<rparr>)
               | Some meeting \<Rightarrow>
                   if \<not> apiKey then (w, c1\<lparr>effects := effects c1 @ [CloseSocket]\<rparr>)
                   else
                     (let dg = nextHandle w;
                          a = nextHandle w + 1;
                          t = nextHandle w + 2;
                          w1 = w\<lparr>dgOpen := dgOpen w @ [dg],
                                 sessions := (sessions w)(a \<mapsto>
                                    (new_session b (mid meeting) dg)\<lparr>summaryInterval := Some t\<rparr>),
                                 activeSessions := (activeSessions w)(b \<mapsto> a),
                                 timers := timers w @ [(t, mid meeting)],
                                 nextHandle := nextHandle w + 3\<rparr>
                      in (w1, c1\<lparr>currentSession := Some a,
                                 effects := effects c1 @
                                   [OpenDeepgram dg, RegisterSession b a, StartInterval t]\<rparr>))))"

text \<open>
  A binary frame is forwarded to the session's speech-to-text connection when that
  connection is open, and dropped otherwise; it changes nothing the claims are about.
\<close>

definition onMessage :: "bool \<Rightarrow> ws_message \<Rightarrow> world \<times> connection \<Rightarrow> world \<times> connection" where
  "onMessage apiKey msg wc =
     (case msg of JsonMessage bot_id \<Rightarrow> onMetadata apiKey bot_id wc
      | BinaryMessage frame \<Rightarrow> wc)"

text \<open>The \<open>close\<close> handler of the channel.\<close>

definition onClose :: "world \<times> connection \<Rightarrow> world \<times> connection" where
  "onClose wc =
     (let w = fst wc; c = snd wc in
      case currentSession c of
        None \<Rightarrow> wc
      | Some a \<Rightarrow>
          (case sessions w a of
             None \<Rightarrow> wc
           | Some s \<Rightarrow>
               (w\<lparr>dgOpen := removeAll (deepgramConnection s) (dgOpen w),
                   timers := (case summaryInterval s of None \<Rightarrow> timers w
                              | Some t \<Rightarrow> filter (\<lambda>(h, m). h \<noteq> t) (timers w)),
                   activeSessions := (activeSessions w)(botId s := None)\<rparr>, c)))"

section \<open>The bot service\<close>

text \<open>
  The provider's answer to \<open>createBot\<close> and to \<open>stopBot\<close> is an input: \<open>Inl e\<close> when the
  call raises \<open>e\<close>. \<open>prisma.meeting.update\<close> in a \<open>catch\<close> block can raise itself; its error
  then replaces the one being handled.
\<close>

definition mark_failed :: "string \<Rightarrow> error \<Rightarrow> world \<Rightarrow> world \<times> (error + 'a)" where
  "mark_failed m e w =
     (case update_meeting m (\<lambda>r. r\<lparr>status := Failed\<rparr>) (db_meeting w) of
        Inl e' \<Rightarrow> (w, Inl e')
      | Inr ms \<Rightarrow> (w\<lparr>db_meeting := ms\<rparr>, Inl e))"

definition startBot :: "(error + string) \<Rightarrow> int \<Rightarrow> string \<Rightarrow> world \<Rightarrow> world \<times> (error + string)" where
  "startBot created now m w =
     (case findUnique (db_meeting w) m of
        None \<Rightarrow> mark_failed m (Error ''Meeting not found or missing meeting URL'') w
      | Some meeting \<Rightarrow>
          if \<not> truthy (zoomJoinUrl meeting)
          then mark_failed m (Error ''Meeting not found or missing meeting URL'') w
          else
            (let w1 = w\<lparr>providerCalls := providerCalls w @ [CreateBot (the (zoomJoinUrl meeting))]\<rparr>
             in case created of
                  Inl e \<Rightarrow> mark_failed m e w1
                | Inr botid \<Rightarrow>
                    (let w2 = w1\<lparr>botIds := (botIds w1)(m \<mapsto> botid)\<rparr> in
                     case update_meeting m
                            (\<lambda>r. r\<lparr>status := Recording, startedAt := Some now,
                                   zoomMeetingId := Some botid\<rparr>) (db_meeting w2) of
                       Inl e \<Rightarrow> mark_failed m e w2
                     | Inr ms \<Rightarrow> (w2\<lparr>db_meeting := ms\<rparr>, Inr botid))))"

text \<open>
  \<open>processMeeting\<close>: without fragments the meeting is completed at once; otherwise the
  final summary is generated (a failure there is logged and leaves \<open>finalSummary\<close> null),
  broadcast with \<open>isFinal\<close>, and written with the status.
\<close>

definition processMeeting :: "llm \<Rightarrow> int \<Rightarrow> string \<Rightarrow> world \<Rightarrow> world \<times> (error + unit)" where
  "processMeeting ask now m w =
     (case findUnique (db_meeting w) m of
        None \<Rightarrow> mark_failed m (Error ''Meeting not found'') w
      | Some meeting \<Rightarrow>
          (let transcripts = findMany_transcripts m (db_transcript w) in
           if transcripts = [] then
             (case update_meeting m (\<lambda>r. r\<lparr>status := Completed\<rparr>) (db_meeting w) of
                Inl e \<Rightarrow> mark_failed m e w
              | Inr ms \<Rightarrow> (w\<lparr>db_meeting := ms\<rparr>, Inr ()))
           else
             (let res = generateLiveSummary ask (map final_input transcripts);
                  finalSummary = (case res of Inl e \<Rightarrow> None | Inr s \<Rightarrow> Some s);
                  w1 = (case res of Inl e \<Rightarrow> w
                        | Inr s \<Rightarrow> broadcastToMeeting m (SummaryEvent s now True) w)
              in case update_meeting m
                        (\<lambda>r. r\<lparr>status := Completed, summary := finalSummary\<rparr>) (db_meeting w1) of
                   Inl e \<Rightarrow> mark_failed m e w1
                 | Inr ms \<Rightarrow>
                     (broadcastToMeeting m (StatusEvent Completed now) (w1\<lparr>db_meeting := ms\<rparr>),
                      Inr ()))))"

text \<open>
  \<open>stopBot\<close> up to its \<open>return\<close>: the errors of its \<open>try\<close> block are re-raised as they are.
  The call of \<open>processMeeting\<close> it starts is not awaited; \<open>stopBot_and_process\<close> is the stop
  followed by that background run, whose own failure is only logged.
\<close>

definition stopBot :: "(error + unit) \<Rightarrow> int \<Rightarrow> string \<Rightarrow> world \<Rightarrow> world \<times> (error + unit)" where
  "stopBot stopped now m w =
     (case findUnique (db_meeting w) m of
        None \<Rightarrow> (w, Inl (Error ''Meeting not found''))
      | Some meeting \<Rightarrow>
          (let botid = js_or (botIds w m) (zoomMeetingId meeting);
               r = (if truthy botid
                    then (case stopped of
                            Inl e \<Rightarrow> Inl (w\<lparr>providerCalls := providerCalls w @ [StopBot (the botid)]\<rparr>, e)
                          | Inr u \<Rightarrow> Inr (w\<lparr>providerCalls := providerCalls w @ [StopBot (the botid)],
                                           botIds := (botIds w)(m := None)\<rparr>))
                    else Inr w)
           in case r of
                Inl (w1, e) \<Rightarrow> (w1, Inl e)
              | Inr w1 \<Rightarrow>
                  (case update_meeting m
                          (\<lambda>r. r\<lparr>status := Processing, endedAt := Some now,
                                 duration := Some (case startedAt meeting of
                                                     Some t \<Rightarrow> \<lfloor>fl (of_int (now - t) / 1000)\<rfloor> | None \<Rightarrow> 0)\<rparr>)
                          (db_meeting w1) of
                     Inl e \<Rightarrow> (w1, Inl e)
                   | Inr ms \<Rightarrow>
                       (broadcastToMeeting m (StatusEvent Processing now) (w1\<lparr>db_meeting := ms\<rparr>),
                        Inr ()))))"

definition stopBot_and_process ::
  "(error + unit) \<Rightarrow> llm \<Rightarrow> int \<Rightarrow> string \<Rightarrow> world \<Rightarrow> world \<times> (error + unit)" where
  "stopBot_and_process stopped ask now m w =
     (case stopBot stopped now m w of
        (w1, Inl e) \<Rightarrow> (w1, Inl e)
      | (w1, Inr u) \<Rightarrow> (fst (processMeeting ask now m w1), Inr u))"

section \<open>Vocabulary of the statements\<close>

text \<open>\<open>Array.prototype.join\<close> with a single space.\<close>

fun join_spaces :: "jstring list \<Rightarrow> jstring" where
  "join_spaces [] = []"
| "join_spaces [t] = t"
| "join_spaces (t # ts) = t @ [0x20] @ join_spaces ts"

definition event_text :: "dg_event \<Rightarrow> jstring" where
  "event_text ev = (case dg_transcript ev of None \<Rightarrow> [] | Some t \<Rightarrow> t)"

text \<open>A final speech event whose text has something besides white space.\<close>

definition final_nonblank :: "dg_event \<Rightarrow> bool" where
  "final_nonblank ev = (dg_is_final ev \<and> trim (event_text ev) \<noteq> [])"

text \<open>
  Timestamps strictly increasing, each gap below the merge window of 5 seconds. The gap
  is the difference of the two doubles as the program computes it.
\<close>

fun close_increasing :: "rat list \<Rightarrow> bool" where
  "close_increasing (a # b # ts) = (a < b \<and> fl (b - a) < 5 \<and> close_increasing (b # ts))"
| "close_increasing ts = True"

text \<open>
  The columns of a fragment other than its text: two rows agree on them.
\<close>

definition same_but_text :: "Transcript \<Rightarrow> Transcript \<Rightarrow> bool" where
  "same_but_text r r' =
     (meetingId r' = meetingId r \<and> speaker r' = speaker r \<and> timestamp r' = timestamp r
      \<and> confidence r' = confidence r)"

definition count_items :: "string \<Rightarrow> string \<Rightarrow> ActionItem list \<Rightarrow> nat" where
  "count_items m t items = length (filter (\<lambda>r. ai_meetingId r = m \<and> title r = t) items)"

text \<open>Successive runs of the interval callback, each with its own answer of the model.\<close>

fun summaryJobs :: "(llm \<times> int) list \<Rightarrow> string \<Rightarrow> world \<Rightarrow> world" where
  "summaryJobs [] m w = w"
| "summaryJobs ((ask, now) # runs) m w = summaryJobs runs m (summaryJob ask now m w)"

text \<open>The merge cursor after an event has been stored.\<close>

definition moved_cursor :: "rat \<Rightarrow> dg_event \<Rightarrow> MeetingSession \<Rightarrow> MeetingSession" where
  "moved_cursor now ev s = s\<lparr>lastSpeaker := Some (speaker_label ev),
      lastTranscript := Some (event_text ev), lastTimestamp := Some (event_timestamp now ev)\<rparr>"

text \<open>A later state of the fragment table keeps every row of an earlier one, up to its text.\<close>

definition keeps_columns :: "Transcript list \<Rightarrow> Transcript list \<Rightarrow> bool" where
  "keeps_columns xs ys = list_all2 same_but_text xs (take (length xs) ys)"

text \<open>The row of a meeting after a stop command, \<open>meeting\<close> being the row read at its start.\<close>

definition stopped_row :: "int \<Rightarrow> meeting \<Rightarrow> meeting \<Rightarrow> meeting" where
  "stopped_row now meeting r =
     r\<lparr>status := Processing, endedAt := Some now,
       duration := Some (case startedAt meeting of Some t \<Rightarrow> \<lfloor>fl (of_int (now - t) / 1000)\<rfloor> | None \<Rightarrow> 0)\<rparr>"

section \<open>Concrete states used to run the model\<close>

definition empty_world :: world where
  "empty_world = \<lparr>db_meeting = [], db_transcript = [], db_actionItem = [],
     sseClients = (\<lambda>m. []), delivered = [], sessions = Map.empty, activeSessions = Map.empty,
     dgOpen = [], timers = [], nextHandle = 0, botIds = Map.empty, providerCalls = []\<rparr>"

definition meeting1 :: meeting where
  "meeting1 = \<lparr>mid = ''m1'', zoomJoinUrl = Some ''https://zoom.us/j/1'', status = Completed,
     zoomMeetingId = Some ''bot1'', startedAt = Some 1000, endedAt = Some 2000,
     duration = Some 1, summary = None, summaryHistory = HistoryNull\<rparr>"

definition completed_body :: webhook_body where
  "completed_body = \<lparr>wb_bot_id = Some ''bot1'', wb_data_bot_id = None,
     wb_event = meeting_completed, wb_timestamp = Truthy (Some 3000)\<rparr>"

definition final_event :: "jstring \<Rightarrow> nat \<Rightarrow> rat \<Rightarrow> dg_event" where
  "final_event t n start =
     \<lparr>dg_transcript = Some t, dg_word_speaker = Some n, dg_word_start = Some start,
      dg_channel_speaker = None, dg_data_speaker = None, dg_is_final = True\<rparr>"

text \<open>
  A meeting being recorded: its bot has connected, so there is a fresh session (object 1,
  speech-to-text connection 0, timer 2), and one viewer (7) is subscribed.
\<close>

definition live_world :: world where
  "live_world = empty_world
     \<lparr>db_meeting := [meeting1\<lparr>status := Recording, endedAt := None, duration := None\<rparr>],
      sseClients := (\<lambda>m. if m = ''m1'' then [7] else []),
      sessions := [1 \<mapsto> (new_session ''bot1'' ''m1'' 0)\<lparr>summaryInterval := Some 2\<rparr>],
      activeSessions := [''bot1'' \<mapsto> 1],
      dgOpen := [0], timers := [(2, ''m1'')], nextHandle := 3\<rparr>"

text \<open>A channel that has just been accepted.\<close>

definition new_connection :: connection where
  "new_connection = \<lparr>currentSession = None, effects = []\<rparr>"

text \<open>
  A meeting that has not been started, and a meeting being recorded of which one fragment
  has been stored; a language model that always answers with one topic and the action
  item \<open>Send proposal\<close> twice.
\<close>

definition scheduled_world :: world where
  "scheduled_world = empty_world
     \<lparr>db_meeting := [meeting1\<lparr>status := Scheduled, zoomMeetingId := None, startedAt := None,
                                endedAt := None, duration := None\<rparr>]\<rparr>"

definition talk_world :: world where
  "talk_world = live_world
     \<lparr>db_transcript := [\<lparr>meetingId = ''m1'', t_text = js ''We should ship Friday'',
                          speaker = Some ''Speaker 0'', timestamp = 1, confidence = Some 1\<rparr>]\<rparr>"

definition ask_proposal :: llm where
  "ask_proposal = (\<lambda>conversation.
     Inr (Some [''Pricing''], None, Some [''Send proposal'', ''Send proposal'']))"

definition summary_proposal :: StructuredSummary where
  "summary_proposal =
     \<lparr>topics = [''Pricing''], decisions = [], actionItems = [''Send proposal'', ''Send proposal'']\<rparr>"

section \<open>Lists and tables\<close>

lemma find_map_keep:
  assumes "\<And>m. P (g m) = P m"
  shows "find P (map g ms) = map_option g (find P ms)"
  using assms by (induction ms) auto

lemma update_meeting_found:
  assumes "findFirst_by_bot ms b = Some m"
  shows "update_meeting (mid m) f ms = Inr (map (\<lambda>r. if mid r = mid m then f r else r) ms)"
proof -
  from assms have "m \<in> set ms"
    unfolding findFirst_by_bot_def by (auto simp: find_Some_iff)
  then have "list_ex (\<lambda>r. mid r = mid m) ms"
    by (auto simp: list_ex_iff)
  then show ?thesis by (simp add: update_meeting_def)
qed

lemma status_after_update:
  assumes "m \<in> set ms" "\<And>r. mid (f r) = mid r" "\<And>r. status (f r) = s"
  shows "map_option status (findUnique (map (\<lambda>r. if mid r = mid m then f r else r) ms) (mid m))
         = Some s"
  using assms unfolding findUnique_def by (induction ms) auto

section \<open>The events webhook: delivery of \<open>meeting.completed\<close>\<close>

lemma POST_events_completed:
  assumes found: "findFirst_by_bot (db_meeting w) b = Some m"
    and bot: "js_or (wb_bot_id body) (wb_data_bot_id body) = Some b" "b \<noteq> []"
    and ev: "wb_event body = meeting_completed"
    and date: "date_or_now now (wb_timestamp body) = Some t"
  shows "POST_events now (Some body) w =
     (w\<lparr>providerCalls := providerCalls w @ [StopBot b],
        db_meeting := map (\<lambda>r. if mid r = mid m
           then r\<lparr>status := Processing, endedAt := Some t\<rparr> else r) (db_meeting w)\<rparr>, 200)"
  using update_meeting_found[OF found] bot ev found date
  by (simp add: POST_events_def handle_event_def write_meeting_def truthy_def Let_def)

lemma POST_events_completed_invalid:
  assumes found: "findFirst_by_bot (db_meeting w) b = Some m"
    and bot: "js_or (wb_bot_id body) (wb_data_bot_id body) = Some b" "b \<noteq> []"
    and ev: "wb_event body = meeting_completed"
    and date: "wb_timestamp body = Truthy None"
  shows "POST_events now (Some body) w = (w\<lparr>providerCalls := providerCalls w @ [StopBot b]\<rparr>, 500)"
  using bot ev found date
  by (simp add: POST_events_def handle_event_def write_meeting_def date_or_now_def truthy_def Let_def)

text \<open>
  Claim C1, as the code has it. The handler of \<open>meeting.completed\<close> never reads the
  current status. Whenever the bot id resolves to a meeting and the timestamp of the body
  is falsy or denotes an instant, it answers 200 and writes \<open>processing\<close>. Delivering the
  same webhook again is answered 200 again and leaves the status at \<open>processing\<close>; it
  leaves the whole meeting table as the first delivery left it when the timestamp is
  truthy (or the clock reads the same). When the timestamp is truthy and denotes no
  instant, the write is refused: the answer is 500 and the meeting table is unchanged.
\<close>

theorem meeting_completed_sets_processing:
  assumes found: "findFirst_by_bot (db_meeting w) b = Some m"
    and bot: "js_or (wb_bot_id body) (wb_data_bot_id body) = Some b" "b \<noteq> []"
    and ev: "wb_event body = meeting_completed"
  shows "(wb_timestamp body = Truthy None \<longrightarrow>
           snd (POST_events now (Some body) w) = 500
           \<and> db_meeting (fst (POST_events now (Some body) w)) = db_meeting w)
    \<and> (wb_timestamp body \<noteq> Truthy None \<longrightarrow>
         snd (POST_events now (Some body) w) = 200
         \<and> status_of (fst (POST_events now (Some body) w)) (mid m) = Some Processing
         \<and> snd (POST_events now' (Some body) (fst (POST_events now (Some body) w))) = 200
         \<and> status_of (fst (POST_events now' (Some body) (fst (POST_events now (Some body) w))))
              (mid m) = Some Processing
         \<and> ((\<exists>t. wb_timestamp body = Truthy (Some t)) \<or> now' = now \<longrightarrow>
              db_meeting (fst (POST_events now' (Some body) (fst (POST_events now (Some body) w))))
              = db_meeting (fst (POST_events now (Some body) w))))"
proof (intro conjI impI)
  assume "wb_timestamp body = Truthy None"
  then show "snd (POST_events now (Some body) w) = 500"
    and "db_meeting (fst (POST_events now (Some body) w)) = db_meeting w"
    by (simp_all add: POST_events_completed_invalid[OF found bot ev])
next
  assume valid: "wb_timestamp body \<noteq> Truthy None"
  define d where "d = (\<lambda>n. the (date_or_now n (wb_timestamp body)))"
  have date: "date_or_now n (wb_timestamp body) = Some (d n)" for n
    using valid by (cases "wb_timestamp body") (auto simp: d_def date_or_now_def)
  define g :: "int \<Rightarrow> meeting \<Rightarrow> meeting" where
    "g = (\<lambda>n r. if mid r = mid m then r\<lparr>status := Processing, endedAt := Some (d n)\<rparr> else r)"
  define w1 where "w1 = fst (POST_events now (Some body) w)"
  have in_ms: "m \<in> set (db_meeting w)"
    using found unfolding findFirst_by_bot_def by (auto simp: find_Some_iff)
  have first: "POST_events now (Some body) w =
      (w\<lparr>providerCalls := providerCalls w @ [StopBot b], db_meeting := map (g now) (db_meeting w)\<rparr>, 200)"
    unfolding g_def by (rule POST_events_completed[OF found bot ev date])
  have db1: "db_meeting w1 = map (g now) (db_meeting w)"
    by (simp add: w1_def first)
  have st: "status_of (w'\<lparr>db_meeting := map (g n) ms\<rparr>) (mid m) = Some Processing"
    if h: "r \<in> set ms" "mid r = mid m" for w' n ms r
    using status_after_update[OF h(1), of "\<lambda>r. r\<lparr>status := Processing, endedAt := Some (d n)\<rparr>"
        Processing]
    by (simp add: status_of_def g_def h(2))
  have zid: "zoomMeetingId (g n r) = zoomMeetingId r" for n r
    by (simp add: g_def)
  have found1: "findFirst_by_bot (db_meeting w1) b = Some (g now m)"
    using found unfolding db1 findFirst_by_bot_def
    by (simp add: find_map_keep zid)
  have mid_g: "mid (g now m) = mid m"
    by (simp add: g_def)
  have second: "POST_events now' (Some body) w1 =
      (w1\<lparr>providerCalls := providerCalls w1 @ [StopBot b], db_meeting := map (g now') (db_meeting w1)\<rparr>, 200)"
    using POST_events_completed[OF found1 bot ev date, of now'] unfolding g_def mid_g by simp
  have in1: "g now m \<in> set (db_meeting w1)"
    using in_ms by (simp add: db1)
  have dd: "d now' = d now" if "(\<exists>t. wb_timestamp body = Truthy (Some t)) \<or> now' = now"
    using that by (auto simp: d_def date_or_now_def)
  have gg: "g now' (g now r) = g now r"
    if "(\<exists>t. wb_timestamp body = Truthy (Some t)) \<or> now' = now" for r
    using dd[OF that] by (simp add: g_def)
  show "snd (POST_events now (Some body) w) = 200"
    by (simp add: first)
  show "status_of (fst (POST_events now (Some body) w)) (mid m) = Some Processing"
    unfolding first using st[OF in_ms] by simp
  show "snd (POST_events now' (Some body) (fst (POST_events now (Some body) w))) = 200"
    unfolding w1_def[symmetric] by (simp add: second)
  show "status_of (fst (POST_events now' (Some body) (fst (POST_events now (Some body) w))))
      (mid m) = Some Processing"
    unfolding w1_def[symmetric] second using st[OF in1 mid_g] by simp
  show "db_meeting (fst (POST_events now' (Some body) (fst (POST_events now (Some body) w))))
      = db_meeting (fst (POST_events now (Some body) w))"
    if "(\<exists>t. wb_timestamp body = Truthy (Some t)) \<or> now' = now"
    unfolding w1_def[symmetric] second db1 using gg[OF that] by simp
qed

text \<open>
  The theorem at a meeting that was \<open>completed\<close> before the delivery, for a body with a
  timestamp and for the same body with a timestamp that is no date.
\<close>

theorem meeting_completed_sets_processing_witness:
  "findFirst_by_bot (db_meeting (empty_world\<lparr>db_meeting := [meeting1]\<rparr>)) ''bot1'' = Some meeting1
   \<and> status_of (empty_world\<lparr>db_meeting := [meeting1]\<rparr>) ''m1'' = Some Completed
   \<and> snd (POST_events 5000 (Some completed_body) (empty_world\<lparr>db_meeting := [meeting1]\<rparr>)) = 200
   \<and> status_of (fst (POST_events 5000 (Some completed_body)
         (empty_world\<lparr>db_meeting := [meeting1]\<rparr>))) ''m1'' = Some Processing
   \<and> db_meeting (fst (POST_events 6000 (Some completed_body) (fst (POST_events 5000 (Some completed_body)
         (empty_world\<lparr>db_meeting := [meeting1]\<rparr>)))))
     = db_meeting (fst (POST_events 5000 (Some completed_body)
         (empty_world\<lparr>db_meeting := [meeting1]\<rparr>)))
   \<and> snd (POST_events 5000 (Some (completed_body\<lparr>wb_timestamp := Truthy None\<rparr>))
         (empty_world\<lparr>db_meeting := [meeting1]\<rparr>)) = 500
   \<and> db_meeting (fst (POST_events 5000 (Some (completed_body\<lparr>wb_timestamp := Truthy None\<rparr>))
         (empty_world\<lparr>db_meeting := [meeting1]\<rparr>))) = [meeting1]"
proof -
  let ?w = "empty_world\<lparr>db_meeting := [meeting1]\<rparr>"
  let ?bad = "completed_body\<lparr>wb_timestamp := Truthy None\<rparr>"
  have f: "findFirst_by_bot (db_meeting ?w) ''bot1'' = Some meeting1"
    by (simp add: findFirst_by_bot_def meeting1_def)
  have b: "js_or (wb_bot_id completed_body) (wb_data_bot_id completed_body) = Some ''bot1''"
    "js_or (wb_bot_id ?bad) (wb_data_bot_id ?bad) = Some ''bot1''"
    by (simp_all add: js_or_def truthy_def completed_body_def)
  have e: "wb_event completed_body = meeting_completed" "wb_event ?bad = meeting_completed"
    by (simp_all add: completed_body_def)
  have m: "mid meeting1 = ''m1''" by (simp add: meeting1_def)
  have t: "wb_timestamp completed_body = Truthy (Some 3000)" "wb_timestamp ?bad = Truthy None"
    by (simp_all add: completed_body_def)
  have s: "status_of ?w ''m1'' = Some Completed"
    by (simp add: status_of_def findUnique_def meeting1_def)
  show ?thesis
    using meeting_completed_sets_processing[OF f b(1) _ e(1), of 5000 6000]
      meeting_completed_sets_processing[OF f b(2) _ e(2), of 5000 6000] f m t s
    by simp
qed

text \<open>
  Claim C1 as stated fails: a meeting that has reached \<open>completed\<close> is moved back to
  \<open>processing\<close> by a \<open>meeting.completed\<close> webhook, an earlier status in the order
  scheduled, recording, processing, completed.
\<close>

theorem completed_regresses_counterexample:
  "status_of (empty_world\<lparr>db_meeting := [meeting1]\<rparr>) ''m1'' = Some Completed
   \<and> status_of (fst (POST_events 5000 (Some completed_body)
         (empty_world\<lparr>db_meeting := [meeting1]\<rparr>))) ''m1'' = Some Processing
   \<and> rank Processing < rank Completed"
  by (simp add: status_of_def findUnique_def POST_events_def handle_event_def write_meeting_def
      date_or_now_def update_meeting_def findFirst_by_bot_def js_or_def truthy_def meeting1_def
      completed_body_def)

section \<open>The fragment merger\<close>

lemma join_spaces_foldl:
  "foldl (\<lambda>acc t. acc @ [0x20] @ t) x ts = join_spaces (x # ts)"
proof (induction ts arbitrary: x rule: rev_induct)
  case Nil
  then show ?case by simp
next
  case (snoc t ts)
  have "join_spaces (y # ys @ [t]) = join_spaces (y # ys) @ [0x20] @ t" for y ys
    by (induction ys arbitrary: y) auto
  with snoc show ?case by simp
qed

lemma findFirst_transcript_last:
  assumes "\<forall>r\<in>set old. \<not> (meetingId r = m \<and> speaker r = Some sp)"
    and "meetingId row = m" "speaker row = Some sp"
  shows "findFirst_transcript m sp (old @ [row]) = Some (length old, row)"
proof -
  have "filter (\<lambda>(i, r). meetingId r = m \<and> speaker r = Some sp) (enumerate n old) = []" for n
    using assms(1) by (induction old arbitrary: n) auto
  then show ?thesis
    using assms(2,3) by (simp add: findFirst_transcript_def enumerate_append_eq)
qed

lemma findFirst_transcript_in:
  assumes "findFirst_transcript m sp ts = Some (i, r)"
  shows "i < length ts \<and> ts ! i = r"
proof -
  let ?P = "\<lambda>(i, r). meetingId r = m \<and> speaker r = Some sp"
  let ?f = "\<lambda>(j, r) (i, b). if timestamp b < timestamp r then (j, r) else (i, (b::Transcript))"
  have step: "fold ?f cs c \<in> set (c # cs)" for cs :: "(nat \<times> Transcript) list" and c
    by (induction cs arbitrary: c) (auto split: prod.splits if_splits)
  from assms obtain c cs where f: "filter ?P (enumerate 0 ts) = c # cs" and "(i, r) = fold ?f cs c"
    by (auto simp: findFirst_transcript_def split: list.splits)
  then have "(i, r) \<in> set (filter ?P (enumerate 0 ts))"
    using step[of cs c] by simp
  then have "(i, r) \<in> set (enumerate 0 ts)" by simp
  then show ?thesis by (simp add: in_set_enumerate_eq)
qed

lemma trim_Nil [simp]: "trim [] = []"
  by (simp add: trim_def)

lemma final_nonblank_text:
  assumes "final_nonblank ev"
  shows "dg_transcript ev = Some (event_text ev) \<and> event_text ev \<noteq> [] \<and> dg_is_final ev
         \<and> trim (event_text ev) \<noteq> []"
  using assms by (auto simp: final_nonblank_def event_text_def split: option.splits)

lemma event_timestamp_nonzero: "0 < now \<Longrightarrow> event_timestamp now ev \<noteq> 0"
  by (auto simp: event_timestamp_def split: option.splits)

lemma onTranscript_create:
  assumes ev: "final_nonblank ev"
    and sess: "sessions w a = Some s" "lastSpeaker s \<noteq> Some (speaker_label ev)"
  shows "db_transcript (onTranscript m (Some a) now ev w) = db_transcript w @
           [\<lparr>meetingId = m, t_text = trim (event_text ev), speaker = Some (speaker_label ev),
             timestamp = \<lfloor>event_timestamp now ev\<rfloor>, confidence = Some 1\<rparr>]"
    and "sessions (onTranscript m (Some a) now ev w) = (sessions w)(a \<mapsto> moved_cursor now ev s)"
  using final_nonblank_text[OF ev] sess
  by (simp_all add: onTranscript_def mk_transcriptData_def store_final_def session_field_def
      update_session_def broadcastTranscript_def moved_cursor_def Let_def)

lemma onTranscript_merge:
  assumes ev: "final_nonblank ev"
    and sess: "sessions w a = Some s" "lastSpeaker s = Some (speaker_label ev)"
      "lastTranscript s = Some lt" "lt \<noteq> []"
      "lastTimestamp s = Some lts" "lts \<noteq> 0" "fl (event_timestamp now ev - lts) < 5"
    and store: "findFirst_transcript m (speaker_label ev) (db_transcript w) = Some (i, r)"
  shows "db_transcript (onTranscript m (Some a) now ev w) =
           (db_transcript w)[i := r\<lparr>t_text := t_text r @ [0x20] @ trim (event_text ev)\<rparr>]"
    and "sessions (onTranscript m (Some a) now ev w) = (sessions w)(a \<mapsto> moved_cursor now ev s)"
  using final_nonblank_text[OF ev] sess store
  by (simp_all add: onTranscript_def mk_transcriptData_def store_final_def session_field_def
      update_session_def broadcastTranscript_def moved_cursor_def withinMergeWindow_def
      truthy_def Let_def)

lemma merge_run:
  assumes "\<forall>(now, ev)\<in>set evs. 0 < now \<and> final_nonblank ev \<and> speaker_label ev = sp"
    and "sessions w a = Some s" "lastSpeaker s = Some sp" "lastTranscript s = Some lt" "lt \<noteq> []"
      "lastTimestamp s = Some lts" "lts \<noteq> 0"
    and "close_increasing (lts # map (\<lambda>(now, ev). event_timestamp now ev) evs)"
    and "db_transcript w = old @ [row]" "meetingId row = m" "speaker row = Some sp"
      "\<forall>r\<in>set old. \<not> (meetingId r = m \<and> speaker r = Some sp)"
  shows "db_transcript (onTranscripts m (Some a) evs w) =
     old @ [row\<lparr>t_text := foldl (\<lambda>acc t. acc @ [0x20] @ t) (t_text row)
                               (map (\<lambda>(now, ev). trim (event_text ev)) evs)\<rparr>]"
  using assms
proof (induction evs arbitrary: w s lt lts row)
  case Nil
  then show ?case by simp
next
  case (Cons e evs)
  obtain now ev where e: "e = (now, ev)" by (cases e)
  let ?w = "onTranscript m (Some a) now ev w"
  let ?row = "row\<lparr>t_text := t_text row @ [0x20] @ trim (event_text ev)\<rparr>"
  from Cons.prems(1) e have ev: "0 < now" "final_nonblank ev" "speaker_label ev = sp"
    by auto
  have gap: "fl (event_timestamp now ev - lts) < 5"
    using Cons.prems(8) e by simp
  have ff: "findFirst_transcript m (speaker_label ev) (db_transcript w) = Some (length old, row)"
    using findFirst_transcript_last[OF Cons.prems(12,10,11)] Cons.prems(9) ev(3) by simp
  have db: "db_transcript ?w = old @ [?row]"
    using onTranscript_merge(1)[OF ev(2) Cons.prems(2) _ Cons.prems(4,5,6,7) gap ff]
      Cons.prems(3,9) ev(3) by simp
  have se: "sessions ?w a = Some (moved_cursor now ev s)"
    using onTranscript_merge(2)[OF ev(2) Cons.prems(2) _ Cons.prems(4,5,6,7) gap ff]
      Cons.prems(3) ev(3) by simp
  have "db_transcript (onTranscripts m (Some a) evs ?w) =
     old @ [?row\<lparr>t_text := foldl (\<lambda>acc t. acc @ [0x20] @ t) (t_text ?row)
                               (map (\<lambda>(now, ev). trim (event_text ev)) evs)\<rparr>]"
  proof (rule Cons.IH[OF _ se _ _ _ _ _ _ db])
    show "\<forall>(now, ev)\<in>set evs. 0 < now \<and> final_nonblank ev \<and> speaker_label ev = sp"
      using Cons.prems(1) by simp
    show "lastSpeaker (moved_cursor now ev s) = Some sp"
      by (simp add: moved_cursor_def ev(3))
    show "lastTranscript (moved_cursor now ev s) = Some (event_text ev)"
      by (simp add: moved_cursor_def)
    show "event_text ev \<noteq> []"
      using final_nonblank_text[OF ev(2)] by simp
    show "lastTimestamp (moved_cursor now ev s) = Some (event_timestamp now ev)"
      by (simp add: moved_cursor_def)
    show "event_timestamp now ev \<noteq> 0"
      by (rule event_timestamp_nonzero[OF ev(1)])
    show "close_increasing (event_timestamp now ev # map (\<lambda>(now, ev). event_timestamp now ev) evs)"
      using Cons.prems(8) e by simp
    show "meetingId ?row = m" "speaker ?row = Some sp"
      using Cons.prems(10,11) by simp_all
    show "\<forall>r\<in>set old. \<not> (meetingId r = m \<and> speaker r = Some sp)"
      by (rule Cons.prems(12))
  qed
  then show ?case by (simp add: e)
qed

text \<open>
  Claim C2, with the conditions the code adds: every event of the sequence has a text
  that is not blank (something is left of it after \<open>trim\<close>), and the gap of two consecutive
  timestamps is below 5 seconds as the program computes it, in double arithmetic. Take a
  non-empty sequence of such final events, all with the speaker label \<open>sp\<close>, whose
  timestamps increase strictly, arriving at a fresh session while the store holds no
  fragment of the meeting and speaker. Afterwards the store holds exactly one fragment of
  that meeting and speaker; its text is the trimmed texts joined by single spaces, in
  order, and its timestamp is the floor of the first event's. The clock is read after the
  epoch (\<open>0 < now\<close>), so the timestamp of an event is never zero.
\<close>

theorem same_speaker_run_one_fragment:
  assumes evs: "evs \<noteq> []"
      "\<forall>(now, ev)\<in>set evs. 0 < now \<and> final_nonblank ev \<and> speaker_label ev = sp"
      "close_increasing (map (\<lambda>(now, ev). event_timestamp now ev) evs)"
    and fresh: "sessions w a = Some s" "lastSpeaker s = None" "lastTranscript s = None"
      "lastTimestamp s = None"
    and store: "\<forall>r\<in>set (db_transcript w). \<not> (meetingId r = m \<and> speaker r = Some sp)"
  shows "filter (\<lambda>r. meetingId r = m \<and> speaker r = Some sp)
           (db_transcript (onTranscripts m (Some a) evs w)) =
         [\<lparr>meetingId = m,
           t_text = join_spaces (map (\<lambda>(now, ev). trim (event_text ev)) evs),
           speaker = Some sp,
           timestamp = \<lfloor>event_timestamp (fst (hd evs)) (snd (hd evs))\<rfloor>,
           confidence = Some 1\<rparr>]"
proof -
  obtain now ev rest where evs_eq: "evs = (now, ev) # rest"
    using evs(1) by (cases evs) auto
  let ?w = "onTranscript m (Some a) now ev w"
  let ?row = "\<lparr>meetingId = m, t_text = trim (event_text ev), speaker = Some sp,
             timestamp = \<lfloor>event_timestamp now ev\<rfloor>, confidence = Some 1\<rparr>"
  have ev: "0 < now" "final_nonblank ev" "speaker_label ev = sp"
    using evs(2) evs_eq by auto
  have rest: "\<forall>(now, ev)\<in>set rest. 0 < now \<and> final_nonblank ev \<and> speaker_label ev = sp"
    using evs(2) evs_eq by simp
  have db: "db_transcript ?w = db_transcript w @ [?row]"
    using onTranscript_create(1)[OF ev(2) fresh(1), of m now] fresh(2) ev(3) by simp
  have se: "sessions ?w a = Some (moved_cursor now ev s)"
    using onTranscript_create(2)[OF ev(2) fresh(1), of m now] fresh(2) by simp
  have run: "db_transcript (onTranscripts m (Some a) rest ?w) =
      db_transcript w @ [?row\<lparr>t_text := foldl (\<lambda>acc t. acc @ [0x20] @ t) (t_text ?row)
                               (map (\<lambda>(now, ev). trim (event_text ev)) rest)\<rparr>]"
  proof (rule merge_run[OF rest se _ _ _ _ _ _ db _ _ store])
    show "lastSpeaker (moved_cursor now ev s) = Some sp"
      by (simp add: moved_cursor_def ev(3))
    show "lastTranscript (moved_cursor now ev s) = Some (event_text ev)"
      by (simp add: moved_cursor_def)
    show "event_text ev \<noteq> []"
      using final_nonblank_text[OF ev(2)] by simp
    show "lastTimestamp (moved_cursor now ev s) = Some (event_timestamp now ev)"
      by (simp add: moved_cursor_def)
    show "event_timestamp now ev \<noteq> 0"
      by (rule event_timestamp_nonzero[OF ev(1)])
    show "close_increasing (event_timestamp now ev # map (\<lambda>(now, ev). event_timestamp now ev) rest)"
      using evs(3) evs_eq by simp
    show "meetingId ?row = m" "speaker ?row = Some sp"
      by simp_all
  qed
  have none: "filter (\<lambda>r. meetingId r = m \<and> speaker r = Some sp) (db_transcript w) = []"
    using store by (auto simp: filter_empty_conv)
  have joined: "foldl (\<lambda>acc t. acc @ [0x20] @ t) (trim (event_text ev))
               (map (\<lambda>(now, ev). trim (event_text ev)) rest)
             = join_spaces (map (\<lambda>(now, ev). trim (event_text ev)) evs)"
    using join_spaces_foldl[of "trim (event_text ev)" "map (\<lambda>(now, ev). trim (event_text ev)) rest"]
    by (simp add: evs_eq)
  show ?thesis
    using run none joined by (simp add: evs_eq)
qed


text \<open>The scenario of the specification: three fragments of one speaker at 1, 2 and 3.\<close>

theorem same_speaker_run_one_fragment_witness:
  "final_nonblank (final_event (js ''We should'') 0 1)
   \<and> speaker_label (final_event (js ''ship Friday'') 0 2) = ''Speaker 0''
   \<and> close_increasing [1, 2, 3]
   \<and> filter (\<lambda>r. meetingId r = ''m1'' \<and> speaker r = Some ''Speaker 0'')
       (db_transcript (onTranscripts ''m1'' (Some 1)
          [(100, final_event (js ''We should'') 0 1), (101, final_event (js ''ship Friday'') 0 2),
           (102, final_event (js ''.'') 0 3)] live_world))
     = [\<lparr>meetingId = ''m1'', t_text = js ''We should ship Friday .'', speaker = Some ''Speaker 0'',
         timestamp = 1, confidence = Some 1\<rparr>]"
proof -
  let ?evs = "[(100, final_event (js ''We should'') 0 1), (101, final_event (js ''ship Friday'') 0 2),
           (102::rat, final_event (js ''.'') 0 3)]"
  have lab: "speaker_label (final_event t 0 st) = ''Speaker 0''" for t st
    by (simp add: speaker_label_def final_event_def nullish_or_def show_nat.simps)
  have fin: "final_nonblank (final_event (js ''We should'') 0 1)"
     "final_nonblank (final_event (js ''ship Friday'') 0 2)" "final_nonblank (final_event (js ''.'') 0 3)"
    by (simp_all add: final_nonblank_def final_event_def event_text_def trim_def is_space_def js_def)
  have h2: "\<forall>(now, ev)\<in>set ?evs. 0 < now \<and> final_nonblank ev \<and> speaker_label ev = ''Speaker 0''"
    using fin lab by simp
  have one: "fl 1 = 1"
    by code_simp
  have h3: "close_increasing (map (\<lambda>(now, ev). event_timestamp now ev) ?evs)"
    by (simp add: event_timestamp_def final_event_def one)
  have s: "sessions live_world 1 = Some ((new_session ''bot1'' ''m1'' 0)\<lparr>summaryInterval := Some 2\<rparr>)"
    by (simp add: live_world_def)
  have st: "\<forall>r\<in>set (db_transcript live_world). \<not> (meetingId r = ''m1'' \<and> speaker r = Some ''Speaker 0'')"
    by (simp add: live_world_def empty_world_def)
  have tx: "join_spaces (map (\<lambda>(now, ev). trim (event_text ev)) ?evs) = js ''We should ship Friday .''"
    by (simp add: final_event_def event_text_def trim_def is_space_def js_def)
  have ts: "\<lfloor>event_timestamp (fst (hd ?evs)) (snd (hd ?evs))\<rfloor> = 1"
    by (simp add: event_timestamp_def final_event_def)
  show ?thesis
    using same_speaker_run_one_fragment[OF _ h2 h3 s _ _ _ st] fin(1) lab tx ts
    by (simp add: new_session_def one)
qed


text \<open>
  Claim C2 as stated fails: a final event whose text is a single space is a sequence of
  one final event, and after it the store holds no fragment.
\<close>

theorem blank_event_no_fragment_counterexample:
  "dg_is_final (final_event (js '' '') 0 1)
   \<and> db_transcript (onTranscripts ''m1'' (Some 1) [(100, final_event (js '' '') 0 1)] live_world) = []"
  by (simp add: final_event_def onTranscript_def mk_transcriptData_def trim_def is_space_def js_def
      broadcastTranscript_def live_world_def empty_world_def Let_def)

section \<open>What the merger leaves alone\<close>

lemma keeps_columns_nth:
  "keeps_columns xs ys \<longleftrightarrow>
     length xs \<le> length ys \<and> (\<forall>i<length xs. same_but_text (xs ! i) (ys ! i))"
  by (auto simp: keeps_columns_def list_all2_conv_all_nth)

lemma keeps_columns_refl: "keeps_columns xs xs"
  by (simp add: keeps_columns_nth same_but_text_def)

lemma keeps_columns_trans:
  assumes "keeps_columns xs ys" "keeps_columns ys zs"
  shows "keeps_columns xs zs"
  using assms unfolding keeps_columns_nth same_but_text_def
  by (metis (no_types, lifting) le_trans less_le_trans)

lemma keeps_columns_append: "keeps_columns xs (xs @ ys)"
  by (simp add: keeps_columns_nth same_but_text_def nth_append)

lemma keeps_columns_update:
  assumes "i < length xs" "xs ! i = r"
  shows "keeps_columns xs (xs[i := r\<lparr>t_text := t\<rparr>])"
  using assms by (auto simp: keeps_columns_nth same_but_text_def nth_list_update)

lemma store_final_db:
  "db_transcript (store_final m cs td w) = db_transcript w
   \<or> db_transcript (store_final m cs td w) = db_transcript w @
        [\<lparr>meetingId = m, t_text = trim (td_text td), speaker = Some (td_speaker td),
          timestamp = \<lfloor>td_timestamp td\<rfloor>, confidence = Some 1\<rparr>]
   \<or> (\<exists>i<length (db_transcript w). db_transcript (store_final m cs td w) =
         (db_transcript w)[i := (db_transcript w ! i)
            \<lparr>t_text := t_text (db_transcript w ! i) @ [0x20] @ trim (td_text td)\<rparr>])"
proof -
  have upd: "db_transcript (update_session cs f w') = db_transcript w'" for f w'
    by (simp add: update_session_def split: option.splits)
  show ?thesis
  proof (cases "findFirst_transcript m (td_speaker td) (db_transcript w)")
    case None
    then show ?thesis by (simp add: store_final_def upd Let_def)
  next
    case (Some p)
    obtain i r where p: "p = (i, r)" by (cases p)
    have "i < length (db_transcript w)" "db_transcript w ! i = r"
      using findFirst_transcript_in[of m "td_speaker td" "db_transcript w" i r] Some p by simp_all
    then show ?thesis
      using Some p by (auto simp: store_final_def upd Let_def)
  qed
qed

lemma store_final_keeps: "keeps_columns (db_transcript w) (db_transcript (store_final m cs td w))"
  using store_final_db[of m cs td w]
  by (auto simp: keeps_columns_refl keeps_columns_append intro: keeps_columns_update)

lemma onTranscript_db:
  "db_transcript (onTranscript m cs now ev w) = db_transcript w
   \<or> db_transcript (onTranscript m cs now ev w) =
        db_transcript (store_final m cs (mk_transcriptData now (event_text ev) ev) w)"
  by (auto simp: onTranscript_def broadcastTranscript_def event_text_def Let_def split: option.splits)

lemma onTranscript_keeps:
  "keeps_columns (db_transcript w) (db_transcript (onTranscript m cs now ev w))"
  using onTranscript_db[of m cs now ev w] store_final_keeps
  by (auto simp: keeps_columns_refl)

lemma onTranscripts_keeps:
  "keeps_columns (db_transcript w) (db_transcript (onTranscripts m cs evs w))"
proof (induction evs arbitrary: w)
  case Nil
  show ?case by (simp add: keeps_columns_refl)
next
  case (Cons e evs)
  obtain now ev where "e = (now, ev)" by (cases e)
  then show ?case
    using keeps_columns_trans[OF onTranscript_keeps Cons.IH] by simp
qed


text \<open>
  Claim C9. Whatever events a connection handles, every fragment that was in the store
  keeps its meeting id, speaker label, timestamp and confidence: the fragment a run of
  merges builds up has the timestamp it was created with. One stored event leaves the
  table as it was, or appends a fragment, or replaces the text of one fragment by that
  text, a space and the trimmed new text, and touches no other row.
\<close>

theorem merge_changes_only_text:
  "list_all2 same_but_text (db_transcript w)
     (take (length (db_transcript w)) (db_transcript (onTranscripts m cs evs w)))
   \<and> (db_transcript (store_final m cs td w) = db_transcript w
      \<or> db_transcript (store_final m cs td w) = db_transcript w @
           [\<lparr>meetingId = m, t_text = trim (td_text td), speaker = Some (td_speaker td),
             timestamp = \<lfloor>td_timestamp td\<rfloor>, confidence = Some 1\<rparr>]
      \<or> (\<exists>i<length (db_transcript w). db_transcript (store_final m cs td w) =
            (db_transcript w)[i := (db_transcript w ! i)
               \<lparr>t_text := t_text (db_transcript w ! i) @ [0x20] @ trim (td_text td)\<rparr>]))"
  using onTranscripts_keeps[of w m cs evs] store_final_db[of m cs td w]
  unfolding keeps_columns_def by simp

section \<open>Blank final events\<close>

text \<open>
  Claim C10, as the code has it. A final event whose text is white space only is not
  stored and leaves every session object, hence the merge cursor, as it was. When the text
  is not empty, the event is sent to every subscriber of the meeting as a transcript event
  with the final flag set, and that is the only change of the state; when the text is
  empty, the handler does nothing at all.
\<close>

theorem blank_final_event_not_stored:
  assumes "dg_is_final ev" "dg_transcript ev = Some t" "trim t = []"
  shows "onTranscript m cs now ev w =
           (if t = [] then w
            else w\<lparr>delivered := delivered w @
                   map (\<lambda>c. (c, TranscriptEvent t (speaker_label ev) (event_timestamp now ev) True))
                     (sseClients w m)\<rparr>)
         \<and> db_transcript (onTranscript m cs now ev w) = db_transcript w
         \<and> sessions (onTranscript m cs now ev w) = sessions w"
  using assms
  by (simp add: onTranscript_def mk_transcriptData_def broadcastTranscript_def Let_def)


text \<open>The theorem at an event whose text is two spaces, with one viewer subscribed.\<close>

theorem blank_final_event_not_stored_witness:
  "dg_is_final (final_event (js ''  '') 0 1) \<and> trim (js ''  '') = []
   \<and> delivered (onTranscript ''m1'' (Some 1) 100 (final_event (js ''  '') 0 1) live_world)
       = [(7, TranscriptEvent (js ''  '') ''Speaker 0'' 1 True)]
   \<and> db_transcript (onTranscript ''m1'' (Some 1) 100 (final_event (js ''  '') 0 1) live_world) = []
   \<and> sessions (onTranscript ''m1'' (Some 1) 100 (final_event (js ''  '') 0 1) live_world) 1
       = Some ((new_session ''bot1'' ''m1'' 0)\<lparr>summaryInterval := Some 2\<rparr>)"
proof -
  have f: "dg_is_final (final_event (js ''  '') 0 1)"
    and t: "dg_transcript (final_event (js ''  '') 0 1) = Some (js ''  '')"
    by (simp_all add: final_event_def)
  have b: "trim (js ''  '') = []"
    by (simp add: trim_def is_space_def js_def)
  have l: "speaker_label (final_event (js ''  '') 0 1) = ''Speaker 0''"
    by (simp add: speaker_label_def final_event_def nullish_or_def show_nat.simps)
  have s: "event_timestamp 100 (final_event (js ''  '') 0 1) = 1"
    by (simp add: event_timestamp_def final_event_def)
  show ?thesis
    using blank_final_event_not_stored[OF f t b, of "''m1''" "Some 1" 100 live_world] f b l s
    by (simp add: live_world_def empty_world_def js_def)
qed


text \<open>
  Claim C10 as stated fails for the empty text: the event is final, a viewer is
  subscribed, and nothing is sent.
\<close>

theorem empty_final_event_not_broadcast_counterexample:
  "dg_is_final (final_event (js '''') 0 1)
   \<and> sseClients live_world ''m1'' = [7]
   \<and> delivered (onTranscript ''m1'' (Some 1) 100 (final_event (js '''') 0 1) live_world) = []"
  by (simp add: final_event_def onTranscript_def live_world_def empty_world_def js_def)

section \<open>The metadata message\<close>

lemma onMetadata_accept:
  assumes "b \<noteq> []" "findFirst_by_bot (db_meeting w) b = Some meeting"
  shows "onMetadata True (Some b) (w, c) =
     (w\<lparr>dgOpen := dgOpen w @ [nextHandle w],
         sessions := (sessions w)(nextHandle w + 1 \<mapsto>
            (new_session b (mid meeting) (nextHandle w))\<lparr>summaryInterval := Some (nextHandle w + 2)\<rparr>),
         activeSessions := (activeSessions w)(b \<mapsto> nextHandle w + 1),
         timers := timers w @ [(nextHandle w + 2, mid meeting)],
         nextHandle := nextHandle w + 3\<rparr>,
      c\<lparr>currentSession := Some (nextHandle w + 1),
        effects := effects c @ [SendReady, FindMeeting b, OpenDeepgram (nextHandle w),
           RegisterSession b (nextHandle w + 1), StartInterval (nextHandle w + 2)]\<rparr>)"
  using assms by (simp add: onMetadata_def truthy_def Let_def)


text \<open>
  Claim C3, as the code has it. The handler never looks into the registry before it
  writes to it. When a channel announces a bot id that resolves to a meeting and already
  has a session registered, the channel is accepted: a speech-to-text connection is
  opened, a new session object is created and takes the place of the old one under that
  bot id, and a new timer is started. The old session object, its connection and its timer
  stay as they were. The registry is a map, so it holds one session for a bot id. Handles
  in use are below the counter they are taken from (\<open>a0 \<le> nextHandle w\<close>).
\<close>

theorem second_channel_replaces_session:
  assumes "b \<noteq> []" "findFirst_by_bot (db_meeting w) b = Some meeting"
    and "activeSessions w b = Some a0" "a0 \<le> nextHandle w"
  shows "activeSessions (fst (onMessage True (JsonMessage (Some b)) (w, c))) b = Some (nextHandle w + 1)
    \<and> nextHandle w + 1 \<noteq> a0
    \<and> sessions (fst (onMessage True (JsonMessage (Some b)) (w, c))) (nextHandle w + 1) =
        Some ((new_session b (mid meeting) (nextHandle w))\<lparr>summaryInterval := Some (nextHandle w + 2)\<rparr>)
    \<and> sessions (fst (onMessage True (JsonMessage (Some b)) (w, c))) a0 = sessions w a0
    \<and> timers (fst (onMessage True (JsonMessage (Some b)) (w, c))) =
        timers w @ [(nextHandle w + 2, mid meeting)]
    \<and> dgOpen (fst (onMessage True (JsonMessage (Some b)) (w, c))) = dgOpen w @ [nextHandle w]
    \<and> currentSession (snd (onMessage True (JsonMessage (Some b)) (w, c))) = Some (nextHandle w + 1)
    \<and> effects (snd (onMessage True (JsonMessage (Some b)) (w, c))) =
        effects c @ [SendReady, FindMeeting b, OpenDeepgram (nextHandle w),
           RegisterSession b (nextHandle w + 1), StartInterval (nextHandle w + 2)]"
  using assms(3,4) by (simp add: onMessage_def onMetadata_accept[OF assms(1,2)])


text \<open>The theorem for a second channel of the bot of a meeting being recorded.\<close>

theorem second_channel_replaces_session_witness:
  "findFirst_by_bot (db_meeting live_world) ''bot1'' \<noteq> None
   \<and> activeSessions live_world ''bot1'' = Some 1
   \<and> activeSessions (fst (onMessage True (JsonMessage (Some ''bot1'')) (live_world, new_connection)))
        ''bot1'' = Some 4
   \<and> sessions (fst (onMessage True (JsonMessage (Some ''bot1'')) (live_world, new_connection))) 1
       = sessions live_world 1
   \<and> timers (fst (onMessage True (JsonMessage (Some ''bot1'')) (live_world, new_connection)))
       = [(2, ''m1''), (5, ''m1'')]
   \<and> effects (snd (onMessage True (JsonMessage (Some ''bot1'')) (live_world, new_connection)))
       = [SendReady, FindMeeting ''bot1'', OpenDeepgram 3, RegisterSession ''bot1'' 4, StartInterval 5]"
proof -
  let ?m = "meeting1\<lparr>status := Recording, endedAt := None, duration := None\<rparr>"
  have f: "findFirst_by_bot (db_meeting live_world) ''bot1'' = Some ?m"
    by (simp add: findFirst_by_bot_def live_world_def meeting1_def)
  have a: "activeSessions live_world ''bot1'' = Some 1"
    by (simp add: live_world_def)
  have n: "nextHandle live_world = 3" "timers live_world = [(2, ''m1'')]" "mid ?m = ''m1''"
    by (simp_all add: live_world_def meeting1_def)
  show ?thesis
    using second_channel_replaces_session[OF _ f a, of new_connection] f a n
    by (simp add: new_connection_def)
qed


text \<open>
  Claim C3 as stated fails: the second channel of bot \<open>bot1\<close> is not closed, the registry
  entry moves from session 1 to session 4, and two timers then run for the one meeting.
\<close>

theorem second_channel_accepted_counterexample:
  "activeSessions live_world ''bot1'' = Some 1
   \<and> activeSessions (fst (onMessage True (JsonMessage (Some ''bot1'')) (live_world, new_connection)))
        ''bot1'' = Some 4
   \<and> CloseSocket \<notin> set (effects (snd (onMessage True (JsonMessage (Some ''bot1''))
        (live_world, new_connection))))
   \<and> map snd (timers (fst (onMessage True (JsonMessage (Some ''bot1'')) (live_world, new_connection))))
       = [''m1'', ''m1'']"
  by (simp add: onMessage_def onMetadata_def truthy_def findFirst_by_bot_def live_world_def
      empty_world_def meeting1_def new_connection_def Let_def)


text \<open>
  Claim C4, as the code has it. The readiness acknowledgment is the first effect of every
  metadata message, before the meeting is looked up. With no matching meeting the channel
  is then closed, and no connection is opened and no session registered; with a matching
  meeting (and a configured key) the speech-to-text connection is opened, the session is
  registered and the interval is started, in this order.
\<close>

theorem metadata_effects_in_order:
  assumes "b \<noteq> []"
  shows "effects (snd (onMessage apiKey (JsonMessage (Some b)) (w, c))) =
      effects c @ [SendReady, FindMeeting b] @
        (case findFirst_by_bot (db_meeting w) b of
           None \<Rightarrow> [CloseSocket]
         | Some meeting \<Rightarrow>
             if apiKey
             then [OpenDeepgram (nextHandle w), RegisterSession b (nextHandle w + 1),
                   StartInterval (nextHandle w + 2)]
             else [CloseSocket])
    \<and> activeSessions (fst (onMessage apiKey (JsonMessage (Some b)) (w, c))) =
        (case findFirst_by_bot (db_meeting w) b of
           None \<Rightarrow> activeSessions w
         | Some meeting \<Rightarrow>
             if apiKey then (activeSessions w)(b \<mapsto> nextHandle w + 1) else activeSessions w)
    \<and> dgOpen (fst (onMessage apiKey (JsonMessage (Some b)) (w, c))) =
        (case findFirst_by_bot (db_meeting w) b of
           None \<Rightarrow> dgOpen w
         | Some meeting \<Rightarrow> if apiKey then dgOpen w @ [nextHandle w] else dgOpen w)
    \<and> currentSession (snd (onMessage apiKey (JsonMessage (Some b)) (w, c))) =
        (case findFirst_by_bot (db_meeting w) b of
           None \<Rightarrow> currentSession c
         | Some meeting \<Rightarrow> if apiKey then Some (nextHandle w + 1) else currentSession c)"
  using assms
  by (simp add: onMessage_def onMetadata_def truthy_def Let_def split: option.splits)


text \<open>The theorem for the bot of the meeting being recorded.\<close>

theorem metadata_effects_in_order_witness:
  "effects (snd (onMessage True (JsonMessage (Some ''bot1'')) (live_world, new_connection)))
     = [SendReady, FindMeeting ''bot1'', OpenDeepgram 3, RegisterSession ''bot1'' 4, StartInterval 5]
   \<and> dgOpen (fst (onMessage True (JsonMessage (Some ''bot1'')) (live_world, new_connection))) = [0, 3]
   \<and> currentSession (snd (onMessage True (JsonMessage (Some ''bot1'')) (live_world, new_connection)))
     = Some 4"
proof -
  have f: "findFirst_by_bot (db_meeting live_world) ''bot1'' =
      Some (meeting1\<lparr>status := Recording, endedAt := None, duration := None\<rparr>)"
    by (simp add: findFirst_by_bot_def live_world_def meeting1_def)
  have n: "nextHandle live_world = 3" "dgOpen live_world = [0]"
    by (simp_all add: live_world_def)
  show ?thesis
    using metadata_effects_in_order[of "''bot1''" True live_world new_connection] f n
    by (simp add: new_connection_def)
qed


text \<open>
  Claim C4 as stated fails: a bot id that matches no meeting is sent the readiness
  acknowledgment, and the channel is closed after it.
\<close>

theorem ready_sent_to_unknown_bot_counterexample:
  "findFirst_by_bot (db_meeting live_world) ''ghost'' = None
   \<and> effects (snd (onMessage True (JsonMessage (Some ''ghost'')) (live_world, new_connection)))
       = [SendReady, FindMeeting ''ghost'', CloseSocket]"
  by (simp add: onMessage_def onMetadata_def truthy_def findFirst_by_bot_def live_world_def
      empty_world_def meeting1_def new_connection_def Let_def)

section \<open>The bot service: start\<close>

lemma findUnique_Some:
  assumes "findUnique ms i = Some r"
  shows "r \<in> set ms \<and> mid r = i"
  using assms unfolding findUnique_def by (auto simp: find_Some_iff)

lemma findUnique_map_update:
  assumes "\<And>r. mid (f r) = mid r"
  shows "findUnique (map (\<lambda>r. if mid r = i then f r else r) ms) i = map_option f (findUnique ms i)"
  using assms unfolding findUnique_def by (induction ms) auto

lemma update_meeting_ok:
  assumes "findUnique ms i = Some r"
  shows "update_meeting i f ms = Inr (map (\<lambda>r. if mid r = i then f r else r) ms)"
proof -
  have "list_ex (\<lambda>r. mid r = i) ms"
    using findUnique_Some[OF assms] by (auto simp: list_ex_iff)
  then show ?thesis by (simp add: update_meeting_def)
qed

lemma startBot_failure:
  assumes "findUnique (db_meeting w) m = Some meeting" "truthy (zoomJoinUrl meeting)"
  shows "startBot (Inl e) now m w =
     (w\<lparr>providerCalls := providerCalls w @ [CreateBot (the (zoomJoinUrl meeting))],
        db_meeting := map (\<lambda>r. if mid r = m then r\<lparr>status := Failed\<rparr> else r) (db_meeting w)\<rparr>,
      Inl e)"
  using assms update_meeting_ok[OF assms(1), of "\<lambda>r. r\<lparr>status := Failed\<rparr>"]
  by (simp add: startBot_def mark_failed_def Let_def)


text \<open>
  Claim C6. When the provider's \<open>createBot\<close> call raises \<open>e\<close> during a start command
  (so the meeting exists and has a join URL), \<open>startBot\<close> raises the same \<open>e\<close> and leaves
  the meeting in status \<open>failed\<close>. It touches neither the session objects, nor the
  registry, nor the speech-to-text connections, nor the timers: no session is created, and
  a meeting for which no timer ran before the command has none after it.
\<close>

theorem startBot_provider_failure:
  assumes "findUnique (db_meeting w) m = Some meeting" "truthy (zoomJoinUrl meeting)"
  shows "snd (startBot (Inl e) now m w) = Inl e
    \<and> status_of (fst (startBot (Inl e) now m w)) m = Some Failed
    \<and> sessions (fst (startBot (Inl e) now m w)) = sessions w
    \<and> activeSessions (fst (startBot (Inl e) now m w)) = activeSessions w
    \<and> dgOpen (fst (startBot (Inl e) now m w)) = dgOpen w
    \<and> timers (fst (startBot (Inl e) now m w)) = timers w
    \<and> (m \<notin> snd ` set (timers w) \<longrightarrow> m \<notin> snd ` set (timers (fst (startBot (Inl e) now m w))))"
  using assms(1)
  by (simp add: startBot_failure[OF assms] status_of_def findUnique_map_update)


text \<open>The theorem for a scheduled meeting and a provider that answers with an error.\<close>

theorem startBot_provider_failure_witness:
  "findUnique (db_meeting scheduled_world) ''m1'' \<noteq> None
   \<and> snd (startBot (Inl (Error ''Failed to create bot: 500'')) 1000 ''m1'' scheduled_world)
       = Inl (Error ''Failed to create bot: 500'')
   \<and> status_of (fst (startBot (Inl (Error ''Failed to create bot: 500'')) 1000 ''m1''
         scheduled_world)) ''m1'' = Some Failed
   \<and> timers (fst (startBot (Inl (Error ''Failed to create bot: 500'')) 1000 ''m1''
         scheduled_world)) = []"
proof -
  let ?m = "meeting1\<lparr>status := Scheduled, zoomMeetingId := None, startedAt := None,
                                endedAt := None, duration := None\<rparr>"
  have f: "findUnique (db_meeting scheduled_world) ''m1'' = Some ?m"
    by (simp add: findUnique_def scheduled_world_def meeting1_def)
  have u: "truthy (zoomJoinUrl ?m)"
    by (simp add: truthy_def meeting1_def)
  have t: "timers scheduled_world = []"
    by (simp add: scheduled_world_def empty_world_def)
  show ?thesis
    using startBot_provider_failure[OF f u, of "Error ''Failed to create bot: 500''" 1000] f t
    by simp
qed

section \<open>The bot service: stop and final processing\<close>

lemma processMeeting_empty:
  assumes "findUnique (db_meeting w) m = Some meeting"
    and "findMany_transcripts m (db_transcript w) = []"
  shows "processMeeting ask now m w =
     (w\<lparr>db_meeting := map (\<lambda>r. if mid r = m then r\<lparr>status := Completed\<rparr> else r) (db_meeting w)\<rparr>,
      Inr ())"
  using assms update_meeting_ok[OF assms(1), of "\<lambda>r. r\<lparr>status := Completed\<rparr>"]
  by (simp add: processMeeting_def Let_def)

lemma stopBot_success:
  assumes "snd (stopBot stopped now m w) = Inr ()"
  shows "\<exists>meeting. findUnique (db_meeting w) m = Some meeting
    \<and> db_meeting (fst (stopBot stopped now m w)) =
        map (\<lambda>r. if mid r = m then stopped_row now meeting r else r) (db_meeting w)
    \<and> delivered (fst (stopBot stopped now m w)) =
        delivered w @ map (\<lambda>c. (c, StatusEvent Processing now)) (sseClients w m)
    \<and> db_transcript (fst (stopBot stopped now m w)) = db_transcript w
    \<and> db_actionItem (fst (stopBot stopped now m w)) = db_actionItem w"
proof (cases "findUnique (db_meeting w) m")
  case None
  with assms show ?thesis by (simp add: stopBot_def)
next
  case (Some meeting)
  have upd: "update_meeting m f (db_meeting w) =
      Inr (map (\<lambda>r. if mid r = m then f r else r) (db_meeting w))" for f
    by (rule update_meeting_ok[OF Some])
  show ?thesis
    using assms Some
    by (auto simp: stopBot_def Let_def upd stopped_row_def broadcastToMeeting_def
        broadcastTranscript_def split: sum.splits if_splits)
qed

lemma stopBot_accepted:
  assumes "findUnique (db_meeting w) m = Some meeting"
    and "stopped = Inr () \<or> \<not> truthy (js_or (botIds w m) (zoomMeetingId meeting))"
  shows "snd (stopBot stopped now m w) = Inr ()"
proof -
  have upd: "update_meeting m f ms' = Inr (map (\<lambda>r. if mid r = m then f r else r) (db_meeting w))"
    if "ms' = db_meeting w" for f ms'
    using update_meeting_ok[OF assms(1)] that by simp
  show ?thesis
    using assms by (auto simp: stopBot_def Let_def upd)
qed

lemma stopBot_refused:
  assumes "findUnique (db_meeting w) m = Some meeting"
    and "truthy (js_or (botIds w m) (zoomMeetingId meeting))"
  shows "stopBot (Inl e) now m w =
     (w\<lparr>providerCalls := providerCalls w @ [StopBot (the (js_or (botIds w m) (zoomMeetingId meeting)))]\<rparr>,
      Inl e)"
  using assms by (simp add: stopBot_def Let_def)

text \<open>
  Claim C5, with the condition the code adds. A stop command for a meeting that exists,
  while the store holds no fragment of the meeting. When the provider's stop call returns,
  or the meeting has no bot id and the provider is not called: the command returns success,
  the final processing it starts returns success, and the meeting ends in status
  \<open>completed\<close>; the summary and the summary history of the meeting are what they were, no
  action item is created, and the only event sent to the viewers is the status
  \<open>processing\<close> of the stop itself, no summary event; the language model \<open>ask\<close> is never
  asked. When the meeting has a bot id and the provider's stop call raises \<open>e\<close>: the command
  raises \<open>e\<close>, the meeting table and so the status are unchanged, nothing is sent to the
  viewers and the final processing is not started.
\<close>

theorem stop_without_fragments_completes:
  assumes "findUnique (db_meeting w) m = Some meeting"
    and "findMany_transcripts m (db_transcript w) = []"
  shows "(stopped = Inr () \<or> \<not> truthy (js_or (botIds w m) (zoomMeetingId meeting)) \<longrightarrow>
      snd (stopBot_and_process stopped ask now m w) = Inr ()
    \<and> snd (processMeeting ask now m (fst (stopBot stopped now m w))) = Inr ()
    \<and> status_of (fst (stopBot_and_process stopped ask now m w)) m = Some Completed
    \<and> map_option summary (findUnique (db_meeting (fst (stopBot_and_process stopped ask now m w))) m)
        = Some (summary meeting)
    \<and> map_option summaryHistory
          (findUnique (db_meeting (fst (stopBot_and_process stopped ask now m w))) m)
        = Some (summaryHistory meeting)
    \<and> db_actionItem (fst (stopBot_and_process stopped ask now m w)) = db_actionItem w
    \<and> delivered (fst (stopBot_and_process stopped ask now m w)) =
        delivered w @ map (\<lambda>c. (c, StatusEvent Processing now)) (sseClients w m))
   \<and> (truthy (js_or (botIds w m) (zoomMeetingId meeting)) \<longrightarrow>
      snd (stopBot_and_process (Inl e) ask now m w) = Inl e
    \<and> db_meeting (fst (stopBot_and_process (Inl e) ask now m w)) = db_meeting w
    \<and> status_of (fst (stopBot_and_process (Inl e) ask now m w)) m = Some (status meeting)
    \<and> db_actionItem (fst (stopBot_and_process (Inl e) ask now m w)) = db_actionItem w
    \<and> delivered (fst (stopBot_and_process (Inl e) ask now m w)) = delivered w)"
proof (intro conjI impI)
  assume bot: "truthy (js_or (botIds w m) (zoomMeetingId meeting))"
  have r: "stopBot_and_process (Inl e) ask now m w =
     (w\<lparr>providerCalls := providerCalls w @ [StopBot (the (js_or (botIds w m) (zoomMeetingId meeting)))]\<rparr>,
      Inl e)"
    by (simp add: stopBot_and_process_def stopBot_refused[OF assms(1) bot])
  show "snd (stopBot_and_process (Inl e) ask now m w) = Inl e"
    and "db_meeting (fst (stopBot_and_process (Inl e) ask now m w)) = db_meeting w"
    and "status_of (fst (stopBot_and_process (Inl e) ask now m w)) m = Some (status meeting)"
    and "db_actionItem (fst (stopBot_and_process (Inl e) ask now m w)) = db_actionItem w"
    and "delivered (fst (stopBot_and_process (Inl e) ask now m w)) = delivered w"
    using assms(1) by (simp_all add: r status_of_def)
next
  assume acc: "stopped = Inr () \<or> \<not> truthy (js_or (botIds w m) (zoomMeetingId meeting))"
  define w1 where "w1 = fst (stopBot stopped now m w)"
  have ok: "snd (stopBot stopped now m w) = Inr ()"
    by (rule stopBot_accepted[OF assms(1) acc])
  obtain meeting' where ex': "findUnique (db_meeting w) m = Some meeting'"
    and db': "db_meeting w1 =
        map (\<lambda>r. if mid r = m then stopped_row now meeting' r else r) (db_meeting w)"
    and dl: "delivered w1 = delivered w @ map (\<lambda>c. (c, StatusEvent Processing now)) (sseClients w m)"
    and tr: "db_transcript w1 = db_transcript w"
    and ai: "db_actionItem w1 = db_actionItem w"
    using stopBot_success[OF ok] unfolding w1_def by blast
  have same: "meeting' = meeting"
    using ex' assms(1) by simp
  note ex = ex'[unfolded same] and db = db'[unfolded same]
  have ex1: "findUnique (db_meeting w1) m = Some (stopped_row now meeting meeting)"
    unfolding db using ex by (simp add: findUnique_map_update stopped_row_def)
  have none1: "findMany_transcripts m (db_transcript w1) = []"
    using assms(2) tr by simp
  have pm: "processMeeting ask now m w1 =
     (w1\<lparr>db_meeting := map (\<lambda>r. if mid r = m then r\<lparr>status := Completed\<rparr> else r) (db_meeting w1)\<rparr>,
      Inr ())"
    by (rule processMeeting_empty[OF ex1 none1])
  have both: "stopBot_and_process stopped ask now m w = (fst (processMeeting ask now m w1), Inr ())"
    using ok unfolding w1_def stopBot_and_process_def
    by (cases "stopBot stopped now m w") (simp split: sum.splits)
  show "snd (stopBot_and_process stopped ask now m w) = Inr ()"
    and "snd (processMeeting ask now m (fst (stopBot stopped now m w))) = Inr ()"
    and "status_of (fst (stopBot_and_process stopped ask now m w)) m = Some Completed"
    and "map_option summary (findUnique (db_meeting (fst (stopBot_and_process stopped ask now m w))) m)
        = Some (summary meeting)"
    and "map_option summaryHistory
          (findUnique (db_meeting (fst (stopBot_and_process stopped ask now m w))) m)
        = Some (summaryHistory meeting)"
    and "db_actionItem (fst (stopBot_and_process stopped ask now m w)) = db_actionItem w"
    and "delivered (fst (stopBot_and_process stopped ask now m w)) =
        delivered w @ map (\<lambda>c. (c, StatusEvent Processing now)) (sseClients w m)"
    unfolding both w1_def[symmetric] pm
    using ex1 dl ai
    by (simp_all add: status_of_def findUnique_map_update stopped_row_def)
qed

text \<open>
  The theorem for the meeting being recorded, before any fragment was stored: with a
  provider that accepts the stop, and with one that answers with an error.
\<close>

theorem stop_without_fragments_completes_witness:
  "findUnique (db_meeting live_world) ''m1'' \<noteq> None
   \<and> findMany_transcripts ''m1'' (db_transcript live_world) = []
   \<and> snd (stopBot_and_process (Inr ()) ask_proposal 9000 ''m1'' live_world) = Inr ()
   \<and> status_of (fst (stopBot_and_process (Inr ()) ask_proposal 9000 ''m1'' live_world)) ''m1''
       = Some Completed
   \<and> map_option summary
        (findUnique (db_meeting (fst (stopBot_and_process (Inr ()) ask_proposal 9000 ''m1'' live_world)))
           ''m1'') = Some None
   \<and> db_actionItem (fst (stopBot_and_process (Inr ()) ask_proposal 9000 ''m1'' live_world)) = []
   \<and> delivered (fst (stopBot_and_process (Inr ()) ask_proposal 9000 ''m1'' live_world))
       = [(7, StatusEvent Processing 9000)]
   \<and> snd (stopBot_and_process (Inl (Error ''Failed to stop bot: 500'')) ask_proposal 9000 ''m1''
        live_world) = Inl (Error ''Failed to stop bot: 500'')
   \<and> status_of (fst (stopBot_and_process (Inl (Error ''Failed to stop bot: 500'')) ask_proposal 9000
        ''m1'' live_world)) ''m1'' = Some Recording"
proof -
  let ?m = "meeting1\<lparr>status := Recording, endedAt := None, duration := None\<rparr>"
  have s: "findUnique (db_meeting live_world) ''m1'' = Some ?m"
    by (simp add: findUnique_def live_world_def meeting1_def)
  have n: "findMany_transcripts ''m1'' (db_transcript live_world) = []"
    by (simp add: findMany_transcripts_def live_world_def empty_world_def)
  have f: "summary ?m = None" "status ?m = Recording"
    by (simp_all add: meeting1_def)
  have b: "truthy (js_or (botIds live_world ''m1'') (zoomMeetingId ?m))"
    by (simp add: js_or_def truthy_def live_world_def empty_world_def meeting1_def)
  have d: "delivered live_world = []" "db_actionItem live_world = []"
    "sseClients live_world ''m1'' = [7]"
    by (simp_all add: live_world_def empty_world_def)
  show ?thesis
    using stop_without_fragments_completes[OF s n, of "Inr ()" ask_proposal 9000
        "Error ''Failed to stop bot: 500''"] s n f d b
    by simp
qed

text \<open>
  Claim C5 as stated fails: the meeting being recorded has a bot and no fragment, the
  provider's stop call raises, and the stop command raises that error and leaves the
  meeting in status \<open>recording\<close>.
\<close>

theorem stop_refused_counterexample:
  "findMany_transcripts ''m1'' (db_transcript live_world) = []
   \<and> snd (stopBot_and_process (Inl (Error ''Failed to stop bot: 500'')) ask_proposal 9000 ''m1''
        live_world) = Inl (Error ''Failed to stop bot: 500'')
   \<and> status_of (fst (stopBot_and_process (Inl (Error ''Failed to stop bot: 500'')) ask_proposal 9000
        ''m1'' live_world)) ''m1'' = Some Recording"
  by (simp add: stopBot_and_process_def stopBot_def findMany_transcripts_def findUnique_def
      status_of_def js_or_def truthy_def live_world_def empty_world_def meeting1_def Let_def)

section \<open>The final summary and the periodic one\<close>

lemma processMeeting_final:
  assumes ex: "findUnique (db_meeting w) m = Some meeting"
    and ne: "findMany_transcripts m (db_transcript w) \<noteq> []"
    and gen: "generateLiveSummary ask (map final_input (findMany_transcripts m (db_transcript w))) = Inr s"
  shows "processMeeting ask now m w =
     (w\<lparr>delivered := delivered w @ map (\<lambda>c. (c, SummaryEvent s now True)) (sseClients w m)
                         @ map (\<lambda>c. (c, StatusEvent Completed now)) (sseClients w m),
        db_meeting := map (\<lambda>r. if mid r = m then r\<lparr>status := Completed, summary := Some s\<rparr> else r)
                        (db_meeting w)\<rparr>,
      Inr ())"
proof -
  have upd: "update_meeting m f ms' = Inr (map (\<lambda>r. if mid r = m then f r else r) (db_meeting w))"
    if "ms' = db_meeting w" for f ms'
    using update_meeting_ok[OF ex] that by simp
  show ?thesis
    using ex ne gen
    by (simp add: processMeeting_def Let_def upd broadcastToMeeting_def broadcastTranscript_def)
qed

lemma summaryJob_success:
  assumes ex: "findUnique (db_meeting w) m = Some meeting"
    and ne: "findMany_transcripts m (db_transcript w) \<noteq> []"
    and gen: "generateLiveSummary ask (map periodic_input (findMany_transcripts m (db_transcript w))) = Inr s"
  shows "summaryJob ask now m w =
     w\<lparr>db_actionItem := saveActionItems m (actionItems s) (db_actionItem w),
       delivered := delivered w @ map (\<lambda>c. (c, SummaryEvent s now False)) (sseClients w m),
       db_meeting := map (\<lambda>r. if mid r = m
           then r\<lparr>summary := Some s,
                  summaryHistory := HistoryJson (parse_history (summaryHistory meeting)
                     @ [\<lparr>entry_timestamp = now, entry_summary = s\<rparr>])\<rparr>
           else r) (db_meeting w)\<rparr>"
proof -
  have upd: "update_meeting m f ms' = Inr (map (\<lambda>r. if mid r = m then f r else r) (db_meeting w))"
    if "ms' = db_meeting w" for f ms'
    using update_meeting_ok[OF ex] that by simp
  show ?thesis
    using ex ne gen
    by (simp add: summaryJob_def Let_def upd broadcastTranscript_def)
qed

lemma inputs_agree:
  assumes "\<forall>r\<in>set ts. truthy (speaker r)"
  shows "map final_input (findMany_transcripts m ts) = map periodic_input (findMany_transcripts m ts)"
proof -
  have "final_input r = periodic_input r" if "truthy (speaker r)" for r
    using that by (auto simp: final_input_def periodic_input_def truthy_def split: option.splits)
  moreover have "set (findMany_transcripts m ts) \<subseteq> set ts"
    by (auto simp: findMany_transcripts_def)
  ultimately show ?thesis using assms by auto
qed


text \<open>
  Claim C7, as the code has it. \<open>processMeeting\<close> has its own code for the final
  summary. For a meeting that exists and has fragments, when the summarization function
  returns \<open>s\<close>: the run returns success, the meeting is \<open>completed\<close> with \<open>s\<close> as its
  current summary, and the viewers are sent the summary event flagged final and then the
  status event. The summary history of the meeting and the action items are left as they
  were. The periodic job, run on the same state, calls the function on the same input when
  every fragment has a speaker label, and stores the same current summary; it is the one
  that appends to the history and saves the action items, and its event is not flagged.
\<close>

theorem final_run_persists_summary_only:
  assumes ex: "findUnique (db_meeting w) m = Some meeting"
    and ne: "findMany_transcripts m (db_transcript w) \<noteq> []"
    and gen: "generateLiveSummary ask (map final_input (findMany_transcripts m (db_transcript w))) = Inr s"
  shows "snd (processMeeting ask now m w) = Inr ()
    \<and> status_of (fst (processMeeting ask now m w)) m = Some Completed
    \<and> map_option summary (findUnique (db_meeting (fst (processMeeting ask now m w))) m) = Some (Some s)
    \<and> delivered (fst (processMeeting ask now m w)) =
        delivered w @ map (\<lambda>c. (c, SummaryEvent s now True)) (sseClients w m)
                    @ map (\<lambda>c. (c, StatusEvent Completed now)) (sseClients w m)
    \<and> map_option summaryHistory (findUnique (db_meeting (fst (processMeeting ask now m w))) m)
        = Some (summaryHistory meeting)
    \<and> db_actionItem (fst (processMeeting ask now m w)) = db_actionItem w
    \<and> ((\<forall>r\<in>set (db_transcript w). truthy (speaker r)) \<longrightarrow>
         map_option summary (findUnique (db_meeting (summaryJob ask now m w)) m) = Some (Some s)
         \<and> delivered (summaryJob ask now m w) =
             delivered w @ map (\<lambda>c. (c, SummaryEvent s now False)) (sseClients w m)
         \<and> map_option summaryHistory (findUnique (db_meeting (summaryJob ask now m w)) m)
             = Some (HistoryJson (parse_history (summaryHistory meeting)
                      @ [\<lparr>entry_timestamp = now, entry_summary = s\<rparr>]))
         \<and> db_actionItem (summaryJob ask now m w)
             = saveActionItems m (actionItems s) (db_actionItem w))"
proof -
  have final: "snd (processMeeting ask now m w) = Inr ()
    \<and> status_of (fst (processMeeting ask now m w)) m = Some Completed
    \<and> map_option summary (findUnique (db_meeting (fst (processMeeting ask now m w))) m) = Some (Some s)
    \<and> delivered (fst (processMeeting ask now m w)) =
        delivered w @ map (\<lambda>c. (c, SummaryEvent s now True)) (sseClients w m)
                    @ map (\<lambda>c. (c, StatusEvent Completed now)) (sseClients w m)
    \<and> map_option summaryHistory (findUnique (db_meeting (fst (processMeeting ask now m w))) m)
        = Some (summaryHistory meeting)
    \<and> db_actionItem (fst (processMeeting ask now m w)) = db_actionItem w"
    using ex
    by (simp add: processMeeting_final[OF ex ne gen] status_of_def findUnique_map_update)
  have periodic: "map_option summary (findUnique (db_meeting (summaryJob ask now m w)) m) = Some (Some s)
         \<and> delivered (summaryJob ask now m w) =
             delivered w @ map (\<lambda>c. (c, SummaryEvent s now False)) (sseClients w m)
         \<and> map_option summaryHistory (findUnique (db_meeting (summaryJob ask now m w)) m)
             = Some (HistoryJson (parse_history (summaryHistory meeting)
                      @ [\<lparr>entry_timestamp = now, entry_summary = s\<rparr>]))
         \<and> db_actionItem (summaryJob ask now m w)
             = saveActionItems m (actionItems s) (db_actionItem w)"
    if sp: "\<forall>r\<in>set (db_transcript w). truthy (speaker r)"
  proof -
    have gen': "generateLiveSummary ask
        (map periodic_input (findMany_transcripts m (db_transcript w))) = Inr s"
      using gen inputs_agree[OF sp, of m] by simp
    show ?thesis
      using ex by (simp add: summaryJob_success[OF ex ne gen'] findUnique_map_update)
  qed
  show ?thesis using final periodic by blast
qed

lemma talk_world_summary:
  "findUnique (db_meeting talk_world) ''m1'' =
      Some (meeting1\<lparr>status := Recording, endedAt := None, duration := None\<rparr>)"
  "findMany_transcripts ''m1'' (db_transcript talk_world) \<noteq> []"
  "generateLiveSummary ask_proposal
      (map final_input (findMany_transcripts ''m1'' (db_transcript talk_world))) = Inr summary_proposal"
  by (simp_all add: findUnique_def findMany_transcripts_def talk_world_def live_world_def
      meeting1_def generateLiveSummary_def ask_proposal_def summary_proposal_def or_empty_def)


text \<open>The theorem for a meeting with one fragment and a model that names an action item.\<close>

theorem final_run_persists_summary_only_witness:
  "findUnique (db_meeting talk_world) ''m1'' \<noteq> None
   \<and> snd (processMeeting ask_proposal 9000 ''m1'' talk_world) = Inr ()
   \<and> status_of (fst (processMeeting ask_proposal 9000 ''m1'' talk_world)) ''m1'' = Some Completed
   \<and> map_option summary (findUnique (db_meeting (fst (processMeeting ask_proposal 9000 ''m1''
        talk_world))) ''m1'') = Some (Some summary_proposal)
   \<and> delivered (fst (processMeeting ask_proposal 9000 ''m1'' talk_world)) =
        [(7, SummaryEvent summary_proposal 9000 True), (7, StatusEvent Completed 9000)]
   \<and> map_option summary (findUnique (db_meeting (summaryJob ask_proposal 9000 ''m1'' talk_world))
        ''m1'') = Some (Some summary_proposal)"
proof -
  have sp: "\<forall>r\<in>set (db_transcript talk_world). truthy (speaker r)"
    by (simp add: talk_world_def truthy_def)
  have d: "delivered talk_world = []" "sseClients talk_world ''m1'' = [7]"
    by (simp_all add: talk_world_def live_world_def empty_world_def)
  show ?thesis
    using final_run_persists_summary_only[OF talk_world_summary, of 9000] sp d talk_world_summary(1)
    by simp
qed


text \<open>
  Claim C7 as stated fails: on that state the final run creates no action item and leaves
  the summary history null, where the periodic job creates the pending item and appends
  the entry.
\<close>

theorem final_run_skips_history_and_items_counterexample:
  "db_actionItem (fst (processMeeting ask_proposal 9000 ''m1'' talk_world)) = []
   \<and> map_option summaryHistory (findUnique (db_meeting (fst (processMeeting ask_proposal 9000 ''m1''
        talk_world))) ''m1'') = Some HistoryNull
   \<and> db_actionItem (summaryJob ask_proposal 9000 ''m1'' talk_world)
       = [\<lparr>ai_meetingId = ''m1'', title = ''Send proposal'', ai_status = ''pending''\<rparr>]
   \<and> map_option summaryHistory (findUnique (db_meeting (summaryJob ask_proposal 9000 ''m1''
        talk_world)) ''m1'')
       = Some (HistoryJson [\<lparr>entry_timestamp = 9000, entry_summary = summary_proposal\<rparr>])"
proof -
  have g: "generateLiveSummary ask_proposal
      (map periodic_input (findMany_transcripts ''m1'' (db_transcript talk_world))) = Inr summary_proposal"
    by (simp add: findMany_transcripts_def talk_world_def generateLiveSummary_def ask_proposal_def
        summary_proposal_def or_empty_def)
  have a: "db_actionItem talk_world = []"
    by (simp add: talk_world_def live_world_def empty_world_def)
  have h: "summaryHistory (meeting1\<lparr>status := Recording, endedAt := None, duration := None\<rparr>) = HistoryNull"
    by (simp add: meeting1_def)
  have s: "saveActionItems ''m1'' (actionItems summary_proposal) [] =
      [\<lparr>ai_meetingId = ''m1'', title = ''Send proposal'', ai_status = ''pending''\<rparr>]"
    by (simp add: summary_proposal_def existingItem_def)
  show ?thesis
    using talk_world_summary(1) a h s
    by (simp add: processMeeting_final[OF talk_world_summary]
        summaryJob_success[OF talk_world_summary(1,2) g] findUnique_map_update parse_history_def)
qed

section \<open>Action items\<close>

lemma existingItem_None: "existingItem m t items = None \<longleftrightarrow> count_items m t items = 0"
  by (auto simp: existingItem_def count_items_def find_None_iff filter_empty_conv)

lemma saveActionItems_count:
  "count_items m' t (saveActionItems m ts items) \<le> max 1 (count_items m' t items)"
proof (induction ts arbitrary: items)
  case Nil
  show ?case by simp
next
  case (Cons t0 ts)
  show ?case
  proof (cases "existingItem m t0 items")
    case (Some r)
    then show ?thesis using Cons.IH[of items] by simp
  next
    case None
    let ?items = "items @ [\<lparr>ai_meetingId = m, title = t0, ai_status = ''pending''\<rparr>]"
    have "count_items m' t ?items \<le> max 1 (count_items m' t items)"
      using None[unfolded existingItem_None] by (auto simp: count_items_def)
    then have "max 1 (count_items m' t ?items) \<le> max 1 (count_items m' t items)"
      by simp
    then show ?thesis
      using Cons.IH[of ?items] None by simp
  qed
qed

lemma saveActionItems_new:
  "\<exists>new. saveActionItems m ts items = items @ new
     \<and> (\<forall>r\<in>set new. ai_status r = ''pending'' \<and> ai_meetingId r = m)"
proof (induction ts arbitrary: items)
  case Nil
  show ?case by simp
next
  case (Cons t0 ts)
  show ?case
  proof (cases "existingItem m t0 items")
    case (Some r)
    then show ?thesis using Cons.IH[of items] by simp
  next
    case None
    let ?row = "\<lparr>ai_meetingId = m, title = t0, ai_status = ''pending''\<rparr>"
    obtain new where "saveActionItems m ts (items @ [?row]) = (items @ [?row]) @ new"
      and "\<forall>r\<in>set new. ai_status r = ''pending'' \<and> ai_meetingId r = m"
      using Cons.IH[of "items @ [?row]"] by blast
    then have "saveActionItems m (t0 # ts) items = items @ (?row # new)
        \<and> (\<forall>r\<in>set (?row # new). ai_status r = ''pending'' \<and> ai_meetingId r = m)"
      using None by simp
    then show ?thesis by blast
  qed
qed

lemma summaryJob_items:
  "\<exists>ts. db_actionItem (summaryJob ask now m w) = saveActionItems m ts (db_actionItem w)"
proof (cases "findMany_transcripts m (db_transcript w) = []")
  case True
  then have "db_actionItem (summaryJob ask now m w) = saveActionItems m [] (db_actionItem w)"
    by (simp add: summaryJob_def)
  then show ?thesis by blast
next
  case False
  show ?thesis
  proof (cases "generateLiveSummary ask (map periodic_input (findMany_transcripts m (db_transcript w)))")
    case (Inl e)
    then have "db_actionItem (summaryJob ask now m w) = saveActionItems m [] (db_actionItem w)"
      using False by (simp add: summaryJob_def)
    then show ?thesis by blast
  next
    case (Inr s)
    then have "db_actionItem (summaryJob ask now m w)
        = saveActionItems m (actionItems s) (db_actionItem w)"
      using False
      by (simp add: summaryJob_def Let_def broadcastTranscript_def split: sum.splits)
    then show ?thesis by blast
  qed
qed

lemma summaryJob_count:
  "count_items m' t (db_actionItem (summaryJob ask now m w)) \<le> max 1 (count_items m' t (db_actionItem w))"
proof -
  obtain ts where "db_actionItem (summaryJob ask now m w) = saveActionItems m ts (db_actionItem w)"
    using summaryJob_items by blast
  then show ?thesis
    using saveActionItems_count[of m' t m ts "db_actionItem w"] by simp
qed

lemma summaryJob_new:
  "\<exists>new. db_actionItem (summaryJob ask now m w) = db_actionItem w @ new
     \<and> (\<forall>r\<in>set new. ai_status r = ''pending'' \<and> ai_meetingId r = m)"
proof -
  obtain ts where "db_actionItem (summaryJob ask now m w) = saveActionItems m ts (db_actionItem w)"
    using summaryJob_items by blast
  then show ?thesis
    using saveActionItems_new[of m ts "db_actionItem w"] by simp
qed


text \<open>
  Claim C8. Whatever the summarization function returns in any number of successive runs
  of the job of meeting \<open>m\<close>, the number of action items of a meeting \<open>m'\<close> with title
  \<open>t\<close> stays at most one when it was at most one (it never exceeds the larger of 1 and
  what it was), and the table only grows by rows of meeting \<open>m\<close> in status \<open>pending\<close>.
  The action items of this pipeline are created nowhere else, so from a table without
  duplicates there is at most one item of a title for a meeting. A run is taken as a
  whole: runs that interleave are outside the model.
\<close>

theorem action_items_one_per_title:
  "count_items m' t (db_actionItem (summaryJobs runs m w)) \<le> max 1 (count_items m' t (db_actionItem w))
   \<and> (\<exists>new. db_actionItem (summaryJobs runs m w) = db_actionItem w @ new
         \<and> (\<forall>r\<in>set new. ai_status r = ''pending'' \<and> ai_meetingId r = m))"
proof (induction runs arbitrary: w)
  case Nil
  show ?case by simp
next
  case (Cons run runs)
  obtain ask now where run: "run = (ask, now)" by (cases run)
  let ?w = "summaryJob ask now m w"
  have c1: "count_items m' t (db_actionItem ?w) \<le> max 1 (count_items m' t (db_actionItem w))"
    by (rule summaryJob_count)
  obtain n1 where n1: "db_actionItem ?w = db_actionItem w @ n1"
    "\<forall>r\<in>set n1. ai_status r = ''pending'' \<and> ai_meetingId r = m"
    using summaryJob_new[of ask now m w] by blast
  from Cons.IH[of ?w] obtain n2 where
    c2: "count_items m' t (db_actionItem (summaryJobs runs m ?w)) \<le> max 1 (count_items m' t (db_actionItem ?w))"
    and n2: "db_actionItem (summaryJobs runs m ?w) = db_actionItem ?w @ n2"
      "\<forall>r\<in>set n2. ai_status r = ''pending'' \<and> ai_meetingId r = m"
    by blast
  have "count_items m' t (db_actionItem (summaryJobs (run # runs) m w))
      \<le> max 1 (count_items m' t (db_actionItem w))"
    using c1 c2 by (simp add: run)
  moreover have "db_actionItem (summaryJobs (run # runs) m w) = db_actionItem w @ (n1 @ n2)
      \<and> (\<forall>r\<in>set (n1 @ n2). ai_status r = ''pending'' \<and> ai_meetingId r = m)"
    using n1 n2 by (auto simp: run)
  ultimately show ?case by blast
qed


text \<open>
  The scenario of the specification: the function returns the title \<open>Send proposal\<close>
  twice, in two successive runs, and one item of that title exists.
\<close>

theorem action_items_one_per_title_witness:
  "actionItems summary_proposal = [''Send proposal'', ''Send proposal'']
   \<and> count_items ''m1'' ''Send proposal'' (db_actionItem talk_world) = 0
   \<and> db_actionItem (summaryJobs [(ask_proposal, 9000), (ask_proposal, 39000)] ''m1'' talk_world)
       = [\<lparr>ai_meetingId = ''m1'', title = ''Send proposal'', ai_status = ''pending''\<rparr>]
   \<and> count_items ''m1'' ''Send proposal''
        (db_actionItem (summaryJobs [(ask_proposal, 9000), (ask_proposal, 39000)] ''m1'' talk_world))
       \<le> 1"
proof -
  have a: "db_actionItem talk_world = []"
    by (simp add: talk_world_def live_world_def empty_world_def)
  have g: "generateLiveSummary ask_proposal (map periodic_input (findMany_transcripts ''m1'' ts))
      = Inr summary_proposal" if "findMany_transcripts ''m1'' ts \<noteq> []" for ts
    using that
    by (simp add: generateLiveSummary_def ask_proposal_def summary_proposal_def or_empty_def)
  have tr: "findMany_transcripts ''m1'' (db_transcript talk_world) \<noteq> []"
    by (simp add: findMany_transcripts_def talk_world_def)
  have ex: "findUnique (db_meeting talk_world) ''m1'' =
      Some (meeting1\<lparr>status := Recording, endedAt := None, duration := None\<rparr>)"
    by (simp add: findUnique_def talk_world_def live_world_def meeting1_def)
  have s1: "saveActionItems ''m1'' (actionItems summary_proposal) [] =
      [\<lparr>ai_meetingId = ''m1'', title = ''Send proposal'', ai_status = ''pending''\<rparr>]"
    by (simp add: summary_proposal_def existingItem_def)
  have s2: "saveActionItems ''m1'' (actionItems summary_proposal)
      [\<lparr>ai_meetingId = ''m1'', title = ''Send proposal'', ai_status = ''pending''\<rparr>] =
      [\<lparr>ai_meetingId = ''m1'', title = ''Send proposal'', ai_status = ''pending''\<rparr>]"
    by (simp add: summary_proposal_def existingItem_def)
  let ?w1 = "summaryJob ask_proposal 9000 ''m1'' talk_world"
  have w1: "db_actionItem ?w1 =
        [\<lparr>ai_meetingId = ''m1'', title = ''Send proposal'', ai_status = ''pending''\<rparr>]"
      "db_transcript ?w1 = db_transcript talk_world"
      "findUnique (db_meeting ?w1) ''m1'' \<noteq> None"
    using a s1 ex
    by (simp_all add: summaryJob_success[OF ex tr g[OF tr]] findUnique_map_update)
  obtain m2 where ex2: "findUnique (db_meeting ?w1) ''m1'' = Some m2"
    using w1(3) by blast
  have tr2: "findMany_transcripts ''m1'' (db_transcript ?w1) \<noteq> []"
    using tr w1(2) by simp
  have w2: "db_actionItem (summaryJob ask_proposal 39000 ''m1'' ?w1) =
        [\<lparr>ai_meetingId = ''m1'', title = ''Send proposal'', ai_status = ''pending''\<rparr>]"
    using w1(1) s2 by (simp add: summaryJob_success[OF ex2 tr2 g[OF tr2]])
  show ?thesis
    using action_items_one_per_title[of "''m1''" "''Send proposal''"
        "[(ask_proposal, 9000), (ask_proposal, 39000)]" "''m1''" talk_world] a w2
    by (simp add: count_items_def summary_proposal_def)
qed

end
